theory Spec2Isabelle
  imports Main "HOL-Library.Finite_Map"
begin

section \<open>JavaScript values at the mapping boundary\<close>

text \<open>
  A property of a decoded JSON object is absent (\<open>undefined\<close>), \<open>null\<close>, or holds a
  value of the type the generated API types declare for it: a string, an object, or a
  number, which for the counts read here is an integer.
\<close>

datatype 'a optional = Undefined | Null | Defined 'a

text \<open>Optional chaining \<open>x?.f\<close>: \<open>undefined\<close> when \<open>x\<close> is \<open>undefined\<close> or \<open>null\<close>.\<close>

definition chain :: "'a optional \<Rightarrow> ('a \<Rightarrow> 'b optional) \<Rightarrow> 'b optional" where
  "chain x f = (case x of Defined a \<Rightarrow> f a | _ \<Rightarrow> Undefined)"

text \<open>
  The operator \<open>x || d\<close> yields \<open>d\<close> exactly when \<open>x\<close> is falsy. A string is falsy
  when it is empty, a number when it is zero, an object never.
\<close>

definition or_string :: "string optional \<Rightarrow> string \<Rightarrow> string" where
  "or_string x d = (case x of Defined s \<Rightarrow> (if s = [] then d else s) | _ \<Rightarrow> d)"

definition or_number :: "int optional \<Rightarrow> int \<Rightarrow> int" where
  "or_number x d = (case x of Defined n \<Rightarrow> (if n = 0 then d else n) | _ \<Rightarrow> d)"

definition or_object :: "'a optional \<Rightarrow> 'a \<Rightarrow> 'a" where
  "or_object x d = (case x of Defined m \<Rightarrow> m | _ \<Rightarrow> d)"

section \<open>Resource items\<close>

text \<open>
  The items of the three list endpoints, with the fields the collector reads. Field
  names carry a prefix because record fields share one name space. The values stored
  under the keys of \<open>assignedServers\<close> are never inspected, so their type is a parameter.
\<close>

record ObjectMeta =
  meta_name :: "string optional"

record CloudSpaceSpec =
  cs_region :: "string optional"

record 'srv CloudSpaceStatus =
  cs_assignedServers :: "(string, 'srv) fmap optional"

record 'srv CloudSpace =
  cs_metadata :: "ObjectMeta optional"
  cs_spec :: "CloudSpaceSpec optional"
  cs_status :: "'srv CloudSpaceStatus optional"

record 'srv CloudSpaceList =
  cs_items :: "'srv CloudSpace list optional"

record SpotNodePoolSpec =
  snp_cloudSpace :: "string optional"
  snp_serverClass :: "string optional"
  snp_desired :: "int optional"

record SpotNodePoolStatus =
  snp_wonCount :: "int optional"
  snp_bidStatus :: "string optional"

record SpotNodePool =
  snp_metadata :: "ObjectMeta optional"
  snp_spec :: "SpotNodePoolSpec optional"
  snp_status :: "SpotNodePoolStatus optional"

record SpotNodePoolList =
  snp_items :: "SpotNodePool list optional"

record OnDemandNodePoolSpec =
  odp_cloudSpace :: "string optional"
  odp_serverClass :: "string optional"
  odp_desired :: "int optional"

record OnDemandNodePoolStatus =
  odp_reservedCount :: "int optional"
  odp_reservedStatus :: "string optional"

record OnDemandNodePool =
  odp_metadata :: "ObjectMeta optional"
  odp_spec :: "OnDemandNodePoolSpec optional"
  odp_status :: "OnDemandNodePoolStatus optional"

record OnDemandNodePoolList =
  odp_items :: "OnDemandNodePool list optional"

section \<open>Gauges and the registry\<close>

text \<open>
  A \<open>Gauge\<close> of the library \<open>prom-client\<close> keeps its samples in a table keyed by a string
  made from the labels: the label names are sorted, and for each name the text
  \<open>name:value,\<close> is appended. \<open>set\<close> puts the labels and the value under that key,
  replacing whatever was stored there. Two label combinations whose values hold \<open>:\<close> or
  \<open>,\<close> can therefore share a key, and then the later \<open>set\<close> replaces the earlier sample.
  The order of the names is that of \<open>Array.prototype.sort\<close>: by code unit, a proper
  prefix first.
\<close>

type_synonym labels = "(string \<times> string) list"

fun string_le :: "string \<Rightarrow> string \<Rightarrow> bool" where
  "string_le [] ys = True"
| "string_le (x # xs) [] = False"
| "string_le (x # xs) (y # ys) =
     (if x = y then string_le xs ys else (of_char x :: nat) < of_char y)"

fun insert_label :: "string \<times> string \<Rightarrow> labels \<Rightarrow> labels" where
  "insert_label kv [] = [kv]"
| "insert_label kv (kv' # rest) =
     (if string_le (fst kv) (fst kv') then kv # kv' # rest else kv' # insert_label kv rest)"

fun sort_labels :: "labels \<Rightarrow> labels" where
  "sort_labels [] = []"
| "sort_labels (kv # rest) = insert_label kv (sort_labels rest)"

definition hashObject :: "labels \<Rightarrow> string" where
  "hashObject l = concat (map (\<lambda>(name, v). name @ '':'' @ v @ '','') (sort_labels l))"

type_synonym gauge = "string \<rightharpoonup> labels \<times> int"

definition gauge_set :: "gauge \<Rightarrow> labels \<Rightarrow> int \<Rightarrow> gauge" where
  "gauge_set g l v = g(hashObject l \<mapsto> (l, v))"

record registry =
  cloudspaceNodesGauge :: gauge
  spotNodePoolDesiredGauge :: gauge
  spotNodePoolWonCountGauge :: gauge
  onDemandNodePoolDesiredGauge :: gauge
  onDemandNodePoolReservedCountGauge :: gauge

text \<open>The registry right after the constructor: five gauges, no sample yet.\<close>

definition new_registry :: registry where
  "new_registry = \<lparr>cloudspaceNodesGauge = Map.empty, spotNodePoolDesiredGauge = Map.empty,
     spotNodePoolWonCountGauge = Map.empty, onDemandNodePoolDesiredGauge = Map.empty,
     onDemandNodePoolReservedCountGauge = Map.empty\<rparr>"

text \<open>
  What is thrown: an \<open>Error\<close> made by the source with its message, or a \<open>TypeError\<close>
  raised by the runtime.
\<close>

datatype error = Error string | TypeError

section \<open>The collector\<close>

subsection \<open>CloudSpaces\<close>

text \<open>The body of the loop of \<open>collectCloudSpaceMetrics\<close>: the arguments of \<open>set\<close>.\<close>

definition cloudSpaceSample :: "string \<Rightarrow> 'srv CloudSpace \<Rightarrow> labels \<times> int" where
  "cloudSpaceSample organization cloudSpace =
     (let name = or_string (chain (cs_metadata cloudSpace) meta_name) ''unknown'';
          region = or_string (chain (cs_spec cloudSpace) cs_region) ''unknown'';
          assignedServers = or_object (chain (cs_status cloudSpace) cs_assignedServers) fmempty;
          nodeCount = int (fcard (fmdom assignedServers))
      in ([(''namespace'', organization), (''cloudspace'', name), (''cloudspace_region'', region)],
          nodeCount))"

fun cloudSpaceLoop :: "string \<Rightarrow> 'srv CloudSpace list \<Rightarrow> registry \<Rightarrow> registry" where
  "cloudSpaceLoop organization [] reg = reg"
| "cloudSpaceLoop organization (cloudSpace # rest) reg =
     (case cloudSpaceSample organization cloudSpace of (l, nodeCount) \<Rightarrow>
        cloudSpaceLoop organization rest
          (reg\<lparr>cloudspaceNodesGauge := gauge_set (cloudspaceNodesGauge reg) l nodeCount\<rparr>))"

text \<open>
  \<open>collectCloudSpaceMetrics\<close> awaits the list call (the first argument is how that call
  settled), returns early on a falsy \<open>cloudSpaces?.items\<close> and otherwise runs the loop.
  An array is truthy even when empty.
\<close>

definition collectCloudSpaceMetrics ::
  "string \<Rightarrow> error + 'srv CloudSpaceList optional \<Rightarrow> registry \<Rightarrow> error + registry" where
  "collectCloudSpaceMetrics organization listed reg =
     (case listed of
        Inl e \<Rightarrow> Inl e
      | Inr cloudSpaces \<Rightarrow>
          (case chain cloudSpaces cs_items of
             Defined items \<Rightarrow> Inr (cloudSpaceLoop organization items reg)
           | _ \<Rightarrow> Inr reg))"

subsection \<open>SpotNodePools\<close>

text \<open>
  The body of the loop of \<open>collectSpotNodePoolMetrics\<close>: the arguments of the two
  \<open>set\<close> calls, the desired count first and the won count second.
\<close>

definition spotNodePoolSamples :: "string \<Rightarrow> SpotNodePool \<Rightarrow> (labels \<times> int) \<times> (labels \<times> int)" where
  "spotNodePoolSamples organization pool =
     (let name = or_string (chain (snp_metadata pool) meta_name) ''unknown'';
          cloudSpace = or_string (chain (snp_spec pool) snp_cloudSpace) ''unknown'';
          serverClass = or_string (chain (snp_spec pool) snp_serverClass) ''unknown'';
          desired = or_number (chain (snp_spec pool) snp_desired) 0;
          wonCount = or_number (chain (snp_status pool) snp_wonCount) 0;
          bidStatus = or_string (chain (snp_status pool) snp_bidStatus) ''unknown''
      in (([(''namespace'', organization), (''cloudspace'', cloudSpace), (''nodepool'', name),
            (''serverclass'', serverClass)], desired),
          ([(''namespace'', organization), (''cloudspace'', cloudSpace), (''nodepool'', name),
            (''serverclass'', serverClass), (''bid_status'', bidStatus)], wonCount)))"

fun spotNodePoolLoop :: "string \<Rightarrow> SpotNodePool list \<Rightarrow> registry \<Rightarrow> registry" where
  "spotNodePoolLoop organization [] reg = reg"
| "spotNodePoolLoop organization (pool # rest) reg =
     (case spotNodePoolSamples organization pool of ((ld, desired), (lw, wonCount)) \<Rightarrow>
        spotNodePoolLoop organization rest
          (reg\<lparr>spotNodePoolDesiredGauge := gauge_set (spotNodePoolDesiredGauge reg) ld desired,
               spotNodePoolWonCountGauge := gauge_set (spotNodePoolWonCountGauge reg) lw wonCount\<rparr>))"

definition collectSpotNodePoolMetrics ::
  "string \<Rightarrow> error + SpotNodePoolList optional \<Rightarrow> registry \<Rightarrow> error + registry" where
  "collectSpotNodePoolMetrics organization listed reg =
     (case listed of
        Inl e \<Rightarrow> Inl e
      | Inr spotNodePools \<Rightarrow>
          (case chain spotNodePools snp_items of
             Defined items \<Rightarrow> Inr (spotNodePoolLoop organization items reg)
           | _ \<Rightarrow> Inr reg))"

subsection \<open>OnDemandNodePools\<close>

definition onDemandNodePoolSamples ::
  "string \<Rightarrow> OnDemandNodePool \<Rightarrow> (labels \<times> int) \<times> (labels \<times> int)" where
  "onDemandNodePoolSamples organization pool =
     (let name = or_string (chain (odp_metadata pool) meta_name) ''unknown'';
          cloudSpace = or_string (chain (odp_spec pool) odp_cloudSpace) ''unknown'';
          serverClass = or_string (chain (odp_spec pool) odp_serverClass) ''unknown'';
          desired = or_number (chain (odp_spec pool) odp_desired) 0;
          reservedCount = or_number (chain (odp_status pool) odp_reservedCount) 0;
          reservedStatus = or_string (chain (odp_status pool) odp_reservedStatus) ''unknown''
      in (([(''namespace'', organization), (''cloudspace'', cloudSpace), (''nodepool'', name),
            (''serverclass'', serverClass)], desired),
          ([(''namespace'', organization), (''cloudspace'', cloudSpace), (''nodepool'', name),
            (''serverclass'', serverClass), (''reserved_status'', reservedStatus)],
           reservedCount)))"

fun onDemandNodePoolLoop :: "string \<Rightarrow> OnDemandNodePool list \<Rightarrow> registry \<Rightarrow> registry" where
  "onDemandNodePoolLoop organization [] reg = reg"
| "onDemandNodePoolLoop organization (pool # rest) reg =
     (case onDemandNodePoolSamples organization pool of ((ld, desired), (lr, reservedCount)) \<Rightarrow>
        onDemandNodePoolLoop organization rest
          (reg\<lparr>onDemandNodePoolDesiredGauge :=
                 gauge_set (onDemandNodePoolDesiredGauge reg) ld desired,
               onDemandNodePoolReservedCountGauge :=
                 gauge_set (onDemandNodePoolReservedCountGauge reg) lr reservedCount\<rparr>))"

definition collectOnDemandNodePoolMetrics ::
  "string \<Rightarrow> error + OnDemandNodePoolList optional \<Rightarrow> registry \<Rightarrow> error + registry" where
  "collectOnDemandNodePoolMetrics organization listed reg =
     (case listed of
        Inl e \<Rightarrow> Inl e
      | Inr onDemandNodePools \<Rightarrow>
          (case chain onDemandNodePools odp_items of
             Defined items \<Rightarrow> Inr (onDemandNodePoolLoop organization items reg)
           | _ \<Rightarrow> Inr reg))"

subsection \<open>One collection pass\<close>

text \<open>
  \<open>Promise.all\<close> starts every task, rejects with the first rejection it sees and cancels
  nothing: the tasks that have not settled yet still run to their end. Each task
  runs without interruption from the moment its list call has settled, since its loop
  holds no \<open>await\<close>. \<open>settle_all\<close> runs the tasks in the order in which they settle and
  returns the first rejection, if any, and the registry once every task has settled.
\<close>

fun settle_all :: "(registry \<Rightarrow> error + registry) list \<Rightarrow> registry \<Rightarrow> (error + unit) \<times> registry" where
  "settle_all [] reg = (Inr (), reg)"
| "settle_all (task # tasks) reg =
     (case task reg of
        Inl e \<Rightarrow> (Inl e, snd (settle_all tasks reg))
      | Inr reg' \<Rightarrow> settle_all tasks reg')"

text \<open>
  \<open>collect\<close>: the three tasks, in the order of the array handed to \<open>Promise.all\<close>; the
  \<open>catch\<close> logs and rethrows. The three list results are how the calls of the client
  settled in this pass. The registry returned is the one reached once the three tasks
  have settled, which for a rejected pass can be later than the rejection itself; it
  is the registry of the program as long as no task of another pass runs in between.
\<close>

definition collect ::
  "string \<Rightarrow> error + 'srv CloudSpaceList optional \<Rightarrow> error + SpotNodePoolList optional \<Rightarrow>
     error + OnDemandNodePoolList optional \<Rightarrow> registry \<Rightarrow> (error + unit) \<times> registry" where
  "collect organization cloudSpaces spotNodePools onDemandNodePools reg =
     settle_all
       [collectCloudSpaceMetrics organization cloudSpaces,
        collectSpotNodePoolMetrics organization spotNodePools,
        collectOnDemandNodePoolMetrics organization onDemandNodePools] reg"

section \<open>The API client\<close>

text \<open>The decimal rendering of a number inside a template literal.\<close>

fun show_nat :: "nat \<Rightarrow> string" where
  "show_nat n =
     (if n < 10 then [''0123456789'' ! n]
      else show_nat (n div 10) @ [''0123456789'' ! (n mod 10)])"

declare show_nat.simps [simp del]

definition PUBLIC_CLIENT_ID :: string where
  "PUBLIC_CLIENT_ID = ''mwG3lUMV8KyeMqHe4fJ5Bb3nM1vBvRNa''"

definition DEFAULT_API_BASE_URL :: string where
  "DEFAULT_API_BASE_URL = ''https://spot.rackspace.com''"

definition DEFAULT_AUTH_BASE_URL :: string where
  "DEFAULT_AUTH_BASE_URL = ''https://login.spot.rackspace.com''"

record RackspaceSpotConfig =
  cfg_refreshToken :: string
  cfg_apiBaseUrl :: "string optional"
  cfg_authBaseUrl :: "string optional"

record OAuthTokenResponse =
  access_token :: string
  id_token :: string
  token_type :: string
  expires_in :: int
  scope :: string

text \<open>
  What \<open>authenticate\<close> reads of the answer of the token endpoint: \<open>ok\<close>, \<open>status\<close>,
  the body as text, and the outcome of decoding the body as JSON.
\<close>

record Response =
  resp_ok :: bool
  resp_status :: nat
  resp_text :: string
  resp_json :: "error + OAuthTokenResponse"

text \<open>
  The outbound requests, as the source issues them: the \<open>fetch\<close> of the token endpoint
  with its URL and its form fields, and the \<open>GET\<close> of the client with its path
  template, the \<open>namespace\<close> path parameter and the \<open>Authorization\<close> header of the request
  that leaves the middleware (\<open>None\<close> when there is none). Building the final URL from
  the base URL, the template and the parameter is left to \<open>openapi-fetch\<close>.
\<close>

datatype request =
    Post string "(string \<times> string) list"
  | Get string string "string option"

text \<open>
  The decoded error body of a failed \<open>GET\<close>, reduced to what the client observes of it:
  whether it is truthy, and its \<open>JSON.stringify\<close> text.
\<close>

datatype errorBody = ErrorBody (truthy: bool) (stringify: string)

record 'd GetResult =
  get_data :: "'d optional"
  get_error :: "errorBody optional"

text \<open>
  The fields of the client, and \<open>sent\<close>: the requests it has put on the wire so far,
  oldest first. \<open>accessToken\<close> is \<open>string | null\<close>.
\<close>

record RackspaceSpotClient =
  refreshToken :: string
  apiBaseUrl :: string
  authBaseUrl :: string
  accessToken :: "string option"
  tokenExpiry :: int
  sent :: "request list"

definition new_client :: "RackspaceSpotConfig \<Rightarrow> RackspaceSpotClient" where
  "new_client config =
     \<lparr>refreshToken = cfg_refreshToken config,
      apiBaseUrl = or_string (cfg_apiBaseUrl config) DEFAULT_API_BASE_URL,
      authBaseUrl = or_string (cfg_authBaseUrl config) DEFAULT_AUTH_BASE_URL,
      accessToken = None, tokenExpiry = 0, sent = []\<rparr>"

text \<open>
  The surroundings of one list call: the clock read by \<open>ensureAuthenticated\<close>, how the
  \<open>fetch\<close> of the token endpoint settles if it is made, the clock read by
  \<open>authenticate\<close> once the answer is decoded, and how the \<open>GET\<close> settles. Clocks are
  \<open>Date.now()\<close>, in milliseconds.
\<close>

record 'd net =
  clock_check :: int
  token_fetch :: "error + Response"
  clock_store :: int
  api_fetch :: "error + 'd GetResult"

text \<open>\<open>this.accessToken\<close> as a condition: neither \<open>null\<close> nor the empty string.\<close>

definition hasAccessToken :: "RackspaceSpotClient \<Rightarrow> bool" where
  "hasAccessToken c = (case accessToken c of None \<Rightarrow> False | Some t \<Rightarrow> t \<noteq> [])"

definition authenticate ::
  "'d net \<Rightarrow> RackspaceSpotClient \<Rightarrow> (error + unit) \<times> RackspaceSpotClient" where
  "authenticate nt c =
     (let c1 = c\<lparr>sent := sent c @
                 [Post (authBaseUrl c @ ''/oauth/token'')
                    [(''grant_type'', ''refresh_token''), (''client_id'', PUBLIC_CLIENT_ID),
                     (''refresh_token'', refreshToken c)]]\<rparr>
      in case token_fetch nt of
           Inl e \<Rightarrow> (Inl e, c1)
         | Inr response \<Rightarrow>
             if \<not> resp_ok response then
               (Inl (Error (''Failed to authenticate: '' @ show_nat (resp_status response)
                             @ '' - '' @ resp_text response)), c1)
             else
               (case resp_json response of
                  Inl e \<Rightarrow> (Inl e, c1)
                | Inr data \<Rightarrow>
                    (Inr (), c1\<lparr>accessToken := Some (id_token data),
                                tokenExpiry := clock_store nt + expires_in data * 1000\<rparr>)))"

definition ensureAuthenticated ::
  "'d net \<Rightarrow> RackspaceSpotClient \<Rightarrow> (error + unit) \<times> RackspaceSpotClient" where
  "ensureAuthenticated nt c =
     (if hasAccessToken c \<and> clock_check nt < tokenExpiry c - 60000 then (Inr (), c)
      else authenticate nt c)"

text \<open>
  \<open>request.headers.set(name, value)\<close> as the Fetch standard defines it: the value is
  normalized by removing leading and trailing HTTP whitespace (tab, LF, CR, space),
  and a normalized value that holds NUL, LF or CR is refused with a \<open>TypeError\<close>;
  otherwise the normalized value is stored. A string is the list of its code units,
  all below 256.
\<close>

definition http_whitespace :: "char \<Rightarrow> bool" where
  "http_whitespace ch = (ch = CHR 0x09 \<or> ch = CHR 0x0A \<or> ch = CHR 0x0D \<or> ch = CHR '' '')"

definition normalize_value :: "string \<Rightarrow> string" where
  "normalize_value v = rev (dropWhile http_whitespace (rev (dropWhile http_whitespace v)))"

definition headers_set :: "string \<Rightarrow> error + string" where
  "headers_set v =
     (let n = normalize_value v
      in if CHR 0x00 \<in> set n \<or> CHR 0x0A \<in> set n \<or> CHR 0x0D \<in> set n then Inl TypeError
         else Inr n)"

text \<open>
  \<open>authMiddleware.onRequest\<close>: the value of the \<open>Authorization\<close> header of the request
  it returns, \<open>None\<close> when it sets none. It rejects when \<open>ensureAuthenticated\<close> does or
  when the header is refused.
\<close>

definition authMiddleware ::
  "'d net \<Rightarrow> RackspaceSpotClient \<Rightarrow> (error + string option) \<times> RackspaceSpotClient" where
  "authMiddleware nt c =
     (case ensureAuthenticated nt c of
        (Inl e, c') \<Rightarrow> (Inl e, c')
      | (Inr _, c') \<Rightarrow>
          (case accessToken c' of
             None \<Rightarrow> (Inr None, c')
           | Some t \<Rightarrow>
               if t \<noteq> [] then
                 (case headers_set (''Bearer '' @ t) of
                    Inl e \<Rightarrow> (Inl e, c')
                  | Inr v \<Rightarrow> (Inr (Some v), c'))
               else (Inr None, c')))"

text \<open>
  \<open>client.GET(template, {params: {path: {namespace}}})\<close>: the middleware runs first and
  its rejection is the rejection of the call; otherwise the request goes out with the
  header the middleware chose.
\<close>

definition client_GET ::
  "string \<Rightarrow> string \<Rightarrow> 'd net \<Rightarrow> RackspaceSpotClient \<Rightarrow>
     (error + 'd GetResult) \<times> RackspaceSpotClient" where
  "client_GET template namespace nt c =
     (case authMiddleware nt c of
        (Inl e, c') \<Rightarrow> (Inl e, c')
      | (Inr header, c') \<Rightarrow>
          (api_fetch nt, c'\<lparr>sent := sent c' @ [Get template namespace header]\<rparr>))"

definition list_resource ::
  "string \<Rightarrow> string \<Rightarrow> string \<Rightarrow> 'd net \<Rightarrow> RackspaceSpotClient \<Rightarrow>
     (error + 'd optional) \<times> RackspaceSpotClient" where
  "list_resource template failure namespace nt c =
     (case client_GET template namespace nt c of
        (Inl e, c') \<Rightarrow> (Inl e, c')
      | (Inr r, c') \<Rightarrow>
          (case get_error r of
             Defined body \<Rightarrow>
               if truthy body then (Inl (Error (failure @ stringify body)), c')
               else (Inr (get_data r), c')
           | _ \<Rightarrow> (Inr (get_data r), c')))"

definition listCloudSpaces ::
  "string \<Rightarrow> 'd net \<Rightarrow> RackspaceSpotClient \<Rightarrow> (error + 'd optional) \<times> RackspaceSpotClient" where
  "listCloudSpaces namespace =
     list_resource ''/apis/ngpc.rxt.io/v1/namespaces/{namespace}/cloudspaces''
       ''Failed to list cloudspaces: '' namespace"

definition listSpotNodePools ::
  "string \<Rightarrow> 'd net \<Rightarrow> RackspaceSpotClient \<Rightarrow> (error + 'd optional) \<times> RackspaceSpotClient" where
  "listSpotNodePools namespace =
     list_resource ''/apis/ngpc.rxt.io/v1/namespaces/{namespace}/spotnodepools''
       ''Failed to list spot node pools: '' namespace"

definition listOnDemandNodePools ::
  "string \<Rightarrow> 'd net \<Rightarrow> RackspaceSpotClient \<Rightarrow> (error + 'd optional) \<times> RackspaceSpotClient" where
  "listOnDemandNodePools namespace =
     list_resource ''/apis/ngpc.rxt.io/v1/namespaces/{namespace}/ondemandnodepools''
       ''Failed to list on-demand node pools: '' namespace"

section \<open>The collection loop of the exporter\<close>

text \<open>
  \<open>collectMetrics\<close> runs in two uninterrupted stretches: from its call to the \<open>await\<close>
  of \<open>collector.collect()\<close>, and from the moment that promise settles through the
  \<open>finally\<close> block. A call of \<open>collector.collect()\<close> starts the three family tasks of a
  pass, each of which waits for its list call. The promise of \<open>collect()\<close> resolves
  when the three tasks have ended and rejects as soon as one of them rejects, while
  the other tasks of that pass are still waiting and will write their gauges later.

  \<open>isCollecting\<close> is the flag of the source. \<open>awaited\<close> holds, for each call of
  \<open>collect()\<close> that has not settled, the number of its tasks still waiting; \<open>abandoned\<close>
  holds, for each pass whose \<open>collect()\<close> has rejected, the number of its tasks still
  waiting.
\<close>

record scheduler =
  isCollecting :: bool
  awaited :: "nat list"
  abandoned :: "nat list"

definition collectMetrics_enter :: "scheduler \<Rightarrow> scheduler" where
  "collectMetrics_enter s =
     (if isCollecting s then s
      else s\<lparr>isCollecting := True, awaited := awaited s @ [3]\<rparr>)"

definition collectMetrics_finally :: "scheduler \<Rightarrow> scheduler" where
  "collectMetrics_finally s = s\<lparr>isCollecting := False\<rparr>"

definition drop_nth :: "nat \<Rightarrow> 'a list \<Rightarrow> 'a list" where
  "drop_nth i xs = take i xs @ drop (Suc i) xs"

text \<open>
  What can happen to the loop. \<open>Tick\<close>: the timer (or the start-up call) invokes
  \<open>collectMetrics\<close>. \<open>Fulfilled i\<close>: a list call of the awaited pass \<open>i\<close> succeeds and its
  task ends; if it was the last task of the pass, \<open>collect()\<close> resolves and the
  \<open>finally\<close> block runs. \<open>Rejected i\<close>: a list call of the awaited pass \<open>i\<close> fails;
  \<open>collect()\<close> rejects at once, the \<open>finally\<close> block runs, and the other tasks of the pass
  are left waiting. \<open>Leftover j\<close>: the list call of a task of the abandoned pass \<open>j\<close>
  settles and the task ends. An event that names no pass changes nothing.
\<close>

datatype event = Tick | Fulfilled nat | Rejected nat | Leftover nat

fun step :: "event \<Rightarrow> scheduler \<Rightarrow> scheduler" where
  "step Tick s = collectMetrics_enter s"
| "step (Fulfilled i) s =
     (if i < length (awaited s) then
        (if awaited s ! i \<le> 1 then
           collectMetrics_finally (s\<lparr>awaited := drop_nth i (awaited s)\<rparr>)
         else s\<lparr>awaited := (awaited s)[i := awaited s ! i - 1]\<rparr>)
      else s)"
| "step (Rejected i) s =
     (if i < length (awaited s) then
        collectMetrics_finally
          (s\<lparr>awaited := drop_nth i (awaited s),
             abandoned := abandoned s @
               (if 1 < awaited s ! i then [awaited s ! i - 1] else [])\<rparr>)
      else s)"
| "step (Leftover j) s =
     (if j < length (abandoned s) then
        (if abandoned s ! j \<le> 1 then s\<lparr>abandoned := drop_nth j (abandoned s)\<rparr>
         else s\<lparr>abandoned := (abandoned s)[j := abandoned s ! j - 1]\<rparr>)
      else s)"





section \<open>Vocabulary of the properties\<close>

text \<open>A field is missing when reading it yields \<open>undefined\<close> or \<open>null\<close>.\<close>

definition is_missing :: "'a optional \<Rightarrow> bool" where
  "is_missing x = (case x of Defined _ \<Rightarrow> False | _ \<Rightarrow> True)"

text \<open>An \<open>items\<close> member that is absent, or present and empty.\<close>

definition absent_or_empty :: "'a list optional \<Rightarrow> bool" where
  "absent_or_empty x = (case x of Defined xs \<Rightarrow> xs = [] | _ \<Rightarrow> True)"

text \<open>
  The node count as the specification words it: the number of keys of the item's
  \<open>status.assignedServers\<close> map, and 0 when that map is absent.
\<close>

definition spec_nodeCount :: "'srv CloudSpace \<Rightarrow> int" where
  "spec_nodeCount cloudSpace =
     (case cs_status cloudSpace of
        Defined st \<Rightarrow>
          (case cs_assignedServers st of
             Defined servers \<Rightarrow> int (fcard (fmdom servers))
           | _ \<Rightarrow> 0)
      | _ \<Rightarrow> 0)"

text \<open>The key under which a gauge stores a sample, and what it stores under a key.\<close>

definition sample_key :: "labels \<times> int \<Rightarrow> string" where
  "sample_key sample = hashObject (fst sample)"

definition entry_label :: "gauge \<Rightarrow> string \<Rightarrow> string \<Rightarrow> string option" where
  "entry_label g k name = (case g k of None \<Rightarrow> None | Some (l, v) \<Rightarrow> map_of l name)"

definition entry_value :: "gauge \<Rightarrow> string \<Rightarrow> int option" where
  "entry_value g k = (case g k of None \<Rightarrow> None | Some (l, v) \<Rightarrow> Some v)"

text \<open>
  A pass in which each of the three list calls succeeds with an \<open>items\<close> array.
\<close>

definition pass_of ::
  "string \<Rightarrow> 'srv CloudSpace list \<Rightarrow> SpotNodePool list \<Rightarrow> OnDemandNodePool list \<Rightarrow> registry \<Rightarrow>
     (error + unit) \<times> registry" where
  "pass_of organization cloudSpaces spotNodePools onDemandNodePools reg =
     collect organization (Inr (Defined \<lparr>cs_items = Defined cloudSpaces\<rparr>))
       (Inr (Defined \<lparr>snp_items = Defined spotNodePools\<rparr>))
       (Inr (Defined \<lparr>odp_items = Defined onDemandNodePools\<rparr>)) reg"

text \<open>Writing a sequence of samples into a gauge, first to last.\<close>

fun write_all :: "(labels \<times> int) list \<Rightarrow> gauge \<Rightarrow> gauge" where
  "write_all [] g = g"
| "write_all ((l, v) # rest) g = write_all rest (gauge_set g l v)"

text \<open>
  The samples one pass hands to each gauge, given how the list call of the family
  settled: none when the call failed or \<open>items\<close> is falsy, one per item otherwise.
\<close>

definition passItems :: "('r \<Rightarrow> 'i list optional) \<Rightarrow> error + 'r optional \<Rightarrow> 'i list" where
  "passItems items_of listed =
     (case listed of
        Inl e \<Rightarrow> []
      | Inr r \<Rightarrow> (case chain r items_of of Defined items \<Rightarrow> items | _ \<Rightarrow> []))"

definition cloudSpaceWrites ::
  "string \<Rightarrow> error + 'srv CloudSpaceList optional \<Rightarrow> (labels \<times> int) list" where
  "cloudSpaceWrites organization listed =
     map (cloudSpaceSample organization) (passItems cs_items listed)"

definition spotDesiredWrites ::
  "string \<Rightarrow> error + SpotNodePoolList optional \<Rightarrow> (labels \<times> int) list" where
  "spotDesiredWrites organization listed =
     map (\<lambda>pool. fst (spotNodePoolSamples organization pool)) (passItems snp_items listed)"

definition spotWonWrites ::
  "string \<Rightarrow> error + SpotNodePoolList optional \<Rightarrow> (labels \<times> int) list" where
  "spotWonWrites organization listed =
     map (\<lambda>pool. snd (spotNodePoolSamples organization pool)) (passItems snp_items listed)"

definition onDemandDesiredWrites ::
  "string \<Rightarrow> error + OnDemandNodePoolList optional \<Rightarrow> (labels \<times> int) list" where
  "onDemandDesiredWrites organization listed =
     map (\<lambda>pool. fst (onDemandNodePoolSamples organization pool)) (passItems odp_items listed)"

definition onDemandReservedWrites ::
  "string \<Rightarrow> error + OnDemandNodePoolList optional \<Rightarrow> (labels \<times> int) list" where
  "onDemandReservedWrites organization listed =
     map (\<lambda>pool. snd (onDemandNodePoolSamples organization pool)) (passItems odp_items listed)"

text \<open>Reading a label of a sample, and the two samples of a node pool by name.\<close>

definition label :: "string \<Rightarrow> labels \<times> int \<Rightarrow> string option" where
  "label k sample = map_of (fst sample) k"

definition spotDesiredSample :: "string \<Rightarrow> SpotNodePool \<Rightarrow> labels \<times> int" where
  "spotDesiredSample organization pool = fst (spotNodePoolSamples organization pool)"

definition spotWonSample :: "string \<Rightarrow> SpotNodePool \<Rightarrow> labels \<times> int" where
  "spotWonSample organization pool = snd (spotNodePoolSamples organization pool)"

definition onDemandDesiredSample :: "string \<Rightarrow> OnDemandNodePool \<Rightarrow> labels \<times> int" where
  "onDemandDesiredSample organization pool = fst (onDemandNodePoolSamples organization pool)"

definition onDemandReservedSample :: "string \<Rightarrow> OnDemandNodePool \<Rightarrow> labels \<times> int" where
  "onDemandReservedSample organization pool = snd (onDemandNodePoolSamples organization pool)"

text \<open>
  Items whose \<open>metadata\<close>, \<open>spec\<close> and \<open>status\<close> objects are present, given field by
  field.
\<close>

definition cloudSpace_of ::
  "string optional \<Rightarrow> string optional \<Rightarrow> (string, 'srv) fmap optional \<Rightarrow> 'srv CloudSpace" where
  "cloudSpace_of name region assignedServers =
     \<lparr>cs_metadata = Defined \<lparr>meta_name = name\<rparr>,
      cs_spec = Defined \<lparr>cs_region = region\<rparr>,
      cs_status = Defined \<lparr>cs_assignedServers = assignedServers\<rparr>\<rparr>"

definition spotNodePool_of ::
  "string optional \<Rightarrow> string optional \<Rightarrow> string optional \<Rightarrow> int optional \<Rightarrow> int optional \<Rightarrow>
     string optional \<Rightarrow> SpotNodePool" where
  "spotNodePool_of name cloudSpace serverClass desired wonCount bidStatus =
     \<lparr>snp_metadata = Defined \<lparr>meta_name = name\<rparr>,
      snp_spec = Defined \<lparr>snp_cloudSpace = cloudSpace, snp_serverClass = serverClass,
                         snp_desired = desired\<rparr>,
      snp_status = Defined \<lparr>snp_wonCount = wonCount, snp_bidStatus = bidStatus\<rparr>\<rparr>"

definition onDemandNodePool_of ::
  "string optional \<Rightarrow> string optional \<Rightarrow> string optional \<Rightarrow> int optional \<Rightarrow> int optional \<Rightarrow>
     string optional \<Rightarrow> OnDemandNodePool" where
  "onDemandNodePool_of name cloudSpace serverClass desired reservedCount reservedStatus =
     \<lparr>odp_metadata = Defined \<lparr>meta_name = name\<rparr>,
      odp_spec = Defined \<lparr>odp_cloudSpace = cloudSpace, odp_serverClass = serverClass,
                         odp_desired = desired\<rparr>,
      odp_status = Defined \<lparr>odp_reservedCount = reservedCount,
                           odp_reservedStatus = reservedStatus\<rparr>\<rparr>"

text \<open>Items whose \<open>metadata\<close>, \<open>spec\<close> and \<open>status\<close> are empty objects.\<close>

definition empty_cloudSpace :: "unit CloudSpace" where
  "empty_cloudSpace = cloudSpace_of Undefined Undefined Undefined"

definition empty_spotNodePool :: SpotNodePool where
  "empty_spotNodePool =
     spotNodePool_of Undefined Undefined Undefined Undefined Undefined Undefined"

definition empty_onDemandNodePool :: OnDemandNodePool where
  "empty_onDemandNodePool =
     onDemandNodePool_of Undefined Undefined Undefined Undefined Undefined Undefined"




text \<open>
  Two spot node pools with different names and server classes whose desired counts
  are stored under one key, that key, and their label combinations for the
  organization \<open>org-test\<close>. Two cloudspaces of the test region.
\<close>

definition colliding_pool_a :: SpotNodePool where
  "colliding_pool_a =
     spotNodePool_of (Defined ''p,serverclass:q'') (Defined ''cloudspace-1'') (Defined ''r'')
       (Defined 2) (Defined 0) (Defined ''winning'')"

definition colliding_pool_b :: SpotNodePool where
  "colliding_pool_b =
     spotNodePool_of (Defined ''p'') (Defined ''cloudspace-1'') (Defined ''q,serverclass:r'')
       (Defined 5) (Defined 0) (Defined ''winning'')"

definition colliding_key :: string where
  "colliding_key =
     ''cloudspace:cloudspace-1,namespace:org-test,nodepool:p,serverclass:q,serverclass:r,''"

definition colliding_labels_a :: labels where
  "colliding_labels_a =
     [(''namespace'', ''org-test''), (''cloudspace'', ''cloudspace-1''),
      (''nodepool'', ''p,serverclass:q''), (''serverclass'', ''r'')]"

definition colliding_labels_b :: labels where
  "colliding_labels_b =
     [(''namespace'', ''org-test''), (''cloudspace'', ''cloudspace-1''),
      (''nodepool'', ''p''), (''serverclass'', ''q,serverclass:r'')]"

definition cloudspace_1 :: "unit CloudSpace" where
  "cloudspace_1 =
     cloudSpace_of (Defined ''cloudspace-1'') (Defined ''us-central-dfw-1'')
       (Defined (fmupd ''server-1'' () (fmupd ''server-2'' () fmempty)))"

definition cloudspace_2 :: "unit CloudSpace" where
  "cloudspace_2 =
     cloudSpace_of (Defined ''cloudspace-2'') (Defined ''us-central-dfw-1'')
       (Defined (fmupd ''server-3'' () fmempty))"

definition cloudspace_1_key :: string where
  "cloudspace_1_key =
     ''cloudspace:cloudspace-1,cloudspace_region:us-central-dfw-1,namespace:org-test,''"

text \<open>
  The request \<open>authenticate\<close> puts on the wire, the three list operations under one
  name, the path template each of them requests, and a run of list calls made one after the
  other, each in its own surroundings, of which the client is kept.
\<close>

definition token_request :: "RackspaceSpotClient \<Rightarrow> request" where
  "token_request c =
     Post (authBaseUrl c @ ''/oauth/token'')
       [(''grant_type'', ''refresh_token''), (''client_id'', PUBLIC_CLIENT_ID),
        (''refresh_token'', refreshToken c)]"

datatype resource = CloudSpaces | SpotNodePools | OnDemandNodePools

fun list_call ::
  "resource \<Rightarrow> string \<Rightarrow> 'd net \<Rightarrow> RackspaceSpotClient \<Rightarrow> (error + 'd optional) \<times> RackspaceSpotClient" where
  "list_call CloudSpaces = listCloudSpaces"
| "list_call SpotNodePools = listSpotNodePools"
| "list_call OnDemandNodePools = listOnDemandNodePools"

fun resource_template :: "resource \<Rightarrow> string" where
  "resource_template CloudSpaces = ''/apis/ngpc.rxt.io/v1/namespaces/{namespace}/cloudspaces''"
| "resource_template SpotNodePools =
     ''/apis/ngpc.rxt.io/v1/namespaces/{namespace}/spotnodepools''"
| "resource_template OnDemandNodePools =
     ''/apis/ngpc.rxt.io/v1/namespaces/{namespace}/ondemandnodepools''"


text \<open>
  The client, the token response and the rejected exchange of the test suite, and
  surroundings in which both clocks read the same instant, the token endpoint gives a
  fixed answer and the \<open>GET\<close> succeeds.
\<close>

definition test_client :: RackspaceSpotClient where
  "test_client =
     new_client \<lparr>cfg_refreshToken = ''test-refresh-token'', cfg_apiBaseUrl = Undefined,
                 cfg_authBaseUrl = Undefined\<rparr>"

definition mock_token :: OAuthTokenResponse where
  "mock_token =
     \<lparr>access_token = ''mock-access-token'', id_token = ''mock-id-token'',
      token_type = ''Bearer'', expires_in = 86400, scope = []\<rparr>"

definition token_200 :: Response where
  "token_200 = \<lparr>resp_ok = True, resp_status = 200, resp_text = [], resp_json = Inr mock_token\<rparr>"

definition token_401 :: Response where
  "token_401 =
     \<lparr>resp_ok = False, resp_status = 401, resp_text = ''Invalid refresh token'',
      resp_json = Inl (Error ''not a token response'')\<rparr>"

definition at_time :: "int \<Rightarrow> Response \<Rightarrow> unit net" where
  "at_time now response =
     \<lparr>clock_check = now, token_fetch = Inr response, clock_store = now,
      api_fetch = Inr \<lparr>get_data = Defined (), get_error = Undefined\<rparr>\<rparr>"


text \<open>
  The answer 200 of the test suite with the \<open>id_token\<close> replaced by the empty string.
\<close>

definition token_200_empty :: Response where
  "token_200_empty = token_200\<lparr>resp_json := Inr (mock_token\<lparr>id_token := []\<rparr>)\<rparr>"

text \<open>The number of token exchanges a client has performed.\<close>

fun is_exchange :: "request \<Rightarrow> bool" where
  "is_exchange (Post url body) = True"
| "is_exchange (Get template namespace header) = False"

definition exchanges :: "RackspaceSpotClient \<Rightarrow> nat" where
  "exchanges c = length (filter is_exchange (sent c))"

section \<open>What one pass does to the registry\<close>

lemma write_all_append: "write_all (xs @ ys) g = write_all ys (write_all xs g)"
  by (induction xs arbitrary: g) auto

lemma write_all_frame: "k \<notin> sample_key ` set ws \<Longrightarrow> write_all ws g k = g k"
  by (induction ws arbitrary: g) (auto simp: gauge_set_def sample_key_def)

lemma write_all_last:
  "sample_key w \<notin> sample_key ` set post \<Longrightarrow>
     write_all (pre @ w # post) g (sample_key w) = Some w"
  by (cases w) (simp add: write_all_append write_all_frame gauge_set_def sample_key_def)

lemma cloudSpaceLoop_registry:
  "cloudSpaceLoop org items reg =
     reg\<lparr>cloudspaceNodesGauge :=
           write_all (map (cloudSpaceSample org) items) (cloudspaceNodesGauge reg)\<rparr>"
  by (induction items arbitrary: reg) (auto split: prod.splits)

lemma spotNodePoolLoop_registry:
  "spotNodePoolLoop org items reg =
     reg\<lparr>spotNodePoolDesiredGauge :=
           write_all (map (\<lambda>pool. fst (spotNodePoolSamples org pool)) items)
             (spotNodePoolDesiredGauge reg),
         spotNodePoolWonCountGauge :=
           write_all (map (\<lambda>pool. snd (spotNodePoolSamples org pool)) items)
             (spotNodePoolWonCountGauge reg)\<rparr>"
  by (induction items arbitrary: reg) (auto split: prod.splits)

lemma onDemandNodePoolLoop_registry:
  "onDemandNodePoolLoop org items reg =
     reg\<lparr>onDemandNodePoolDesiredGauge :=
           write_all (map (\<lambda>pool. fst (onDemandNodePoolSamples org pool)) items)
             (onDemandNodePoolDesiredGauge reg),
         onDemandNodePoolReservedCountGauge :=
           write_all (map (\<lambda>pool. snd (onDemandNodePoolSamples org pool)) items)
             (onDemandNodePoolReservedCountGauge reg)\<rparr>"
  by (induction items arbitrary: reg) (auto split: prod.splits)

lemma collectCloudSpaceMetrics_cases:
  "collectCloudSpaceMetrics org listed reg =
     (case listed of
        Inl e \<Rightarrow> Inl e
      | Inr r \<Rightarrow> Inr (reg\<lparr>cloudspaceNodesGauge :=
                 write_all (cloudSpaceWrites org listed) (cloudspaceNodesGauge reg)\<rparr>))"
  by (auto simp: collectCloudSpaceMetrics_def cloudSpaceWrites_def passItems_def
        cloudSpaceLoop_registry split: sum.splits optional.splits)

lemma collectSpotNodePoolMetrics_cases:
  "collectSpotNodePoolMetrics org listed reg =
     (case listed of
        Inl e \<Rightarrow> Inl e
      | Inr r \<Rightarrow> Inr (reg\<lparr>spotNodePoolDesiredGauge :=
                 write_all (spotDesiredWrites org listed) (spotNodePoolDesiredGauge reg),
               spotNodePoolWonCountGauge :=
                 write_all (spotWonWrites org listed) (spotNodePoolWonCountGauge reg)\<rparr>))"
  by (auto simp: collectSpotNodePoolMetrics_def spotDesiredWrites_def spotWonWrites_def
        passItems_def spotNodePoolLoop_registry split: sum.splits optional.splits)

lemma collectOnDemandNodePoolMetrics_cases:
  "collectOnDemandNodePoolMetrics org listed reg =
     (case listed of
        Inl e \<Rightarrow> Inl e
      | Inr r \<Rightarrow> Inr (reg\<lparr>onDemandNodePoolDesiredGauge :=
                 write_all (onDemandDesiredWrites org listed) (onDemandNodePoolDesiredGauge reg),
               onDemandNodePoolReservedCountGauge :=
                 write_all (onDemandReservedWrites org listed)
                   (onDemandNodePoolReservedCountGauge reg)\<rparr>))"
  by (auto simp: collectOnDemandNodePoolMetrics_def onDemandDesiredWrites_def
        onDemandReservedWrites_def passItems_def onDemandNodePoolLoop_registry
        split: sum.splits optional.splits)

lemma writes_failed [simp]:
  "cloudSpaceWrites org (Inl e) = []" "spotDesiredWrites org (Inl e) = []"
  "spotWonWrites org (Inl e) = []" "onDemandDesiredWrites org (Inl e) = []"
  "onDemandReservedWrites org (Inl e) = []"
  by (simp_all add: cloudSpaceWrites_def spotDesiredWrites_def spotWonWrites_def
        onDemandDesiredWrites_def onDemandReservedWrites_def passItems_def)

lemma collect_registry:
  "snd (collect org r1 r2 r3 reg) =
     \<lparr>cloudspaceNodesGauge = write_all (cloudSpaceWrites org r1) (cloudspaceNodesGauge reg),
      spotNodePoolDesiredGauge = write_all (spotDesiredWrites org r2) (spotNodePoolDesiredGauge reg),
      spotNodePoolWonCountGauge = write_all (spotWonWrites org r2) (spotNodePoolWonCountGauge reg),
      onDemandNodePoolDesiredGauge =
        write_all (onDemandDesiredWrites org r3) (onDemandNodePoolDesiredGauge reg),
      onDemandNodePoolReservedCountGauge =
        write_all (onDemandReservedWrites org r3) (onDemandNodePoolReservedCountGauge reg)\<rparr>"
  by (cases r1; cases r2; cases r3)
     (simp_all add: collect_def collectCloudSpaceMetrics_cases collectSpotNodePoolMetrics_cases
        collectOnDemandNodePoolMetrics_cases)

lemma collect_outcome:
  "fst (collect org r1 r2 r3 reg) =
     (case r1 of Inl e \<Rightarrow> Inl e
      | Inr _ \<Rightarrow> (case r2 of Inl e \<Rightarrow> Inl e
         | Inr _ \<Rightarrow> (case r3 of Inl e \<Rightarrow> Inl e | Inr _ \<Rightarrow> Inr ())))"
  by (cases r1; cases r2; cases r3)
     (simp_all add: collect_def collectCloudSpaceMetrics_cases collectSpotNodePoolMetrics_cases
        collectOnDemandNodePoolMetrics_cases)

text \<open>
  The three tasks write disjoint gauges, so the order in which they settle changes
  neither the registry they leave behind nor whether the pass fails.
\<close>

lemma settle_order_irrelevant:
  assumes "a = collectCloudSpaceMetrics org r1" and "b = collectSpotNodePoolMetrics org r2"
    and "c = collectOnDemandNodePoolMetrics org r3"
    and "ts \<in> {[a, b, c], [a, c, b], [b, a, c], [b, c, a], [c, a, b], [c, b, a]}"
  shows "snd (settle_all ts reg) = snd (collect org r1 r2 r3 reg)
         \<and> (isl (fst (settle_all ts reg)) \<longleftrightarrow> isl (fst (collect org r1 r2 r3 reg)))"
  using assms
  by (cases r1; cases r2; cases r3)
     (auto simp: collect_def collectCloudSpaceMetrics_cases collectSpotNodePoolMetrics_cases
        collectOnDemandNodePoolMetrics_cases)

section \<open>The node count of a cloudspace\<close>

lemma cloudSpaceSample_value: "snd (cloudSpaceSample org cloudSpace) = spec_nodeCount cloudSpace"
  by (simp add: cloudSpaceSample_def spec_nodeCount_def chain_def or_object_def
        split: optional.splits)

text \<open>
  C1. The value handed to \<open>rackspace_spot_cloudspace_nodes_total\<close> for a CloudSpace item
  is the number of keys of its \<open>status.assignedServers\<close> map, and 0 when that map is
  absent. The gauge holds the item's labels with this value as soon as the item has
  been processed, and still holds them when the pass is over unless a later item of
  the same pass is stored under the same key.
\<close>

theorem cloudspace_nodes_total_counts_assigned_servers:
  "snd (cloudSpaceSample org cloudSpace) = spec_nodeCount cloudSpace
   \<and> cloudspaceNodesGauge (cloudSpaceLoop org (pre @ [cloudSpace]) reg)
         (sample_key (cloudSpaceSample org cloudSpace))
       = Some (fst (cloudSpaceSample org cloudSpace), spec_nodeCount cloudSpace)
   \<and> (sample_key (cloudSpaceSample org cloudSpace)
          \<notin> sample_key ` cloudSpaceSample org ` set post \<longrightarrow>
        cloudspaceNodesGauge
          (snd (collect org (Inr (Defined \<lparr>cs_items = Defined (pre @ cloudSpace # post)\<rparr>)) r2 r3 reg))
          (sample_key (cloudSpaceSample org cloudSpace))
        = Some (fst (cloudSpaceSample org cloudSpace), spec_nodeCount cloudSpace))"
proof -
  let ?w = "cloudSpaceSample org cloudSpace"
  have w: "?w = (fst ?w, spec_nodeCount cloudSpace)"
    using cloudSpaceSample_value [of org cloudSpace] by (cases ?w) simp
  have step: "cloudspaceNodesGauge (cloudSpaceLoop org (pre @ [cloudSpace]) reg) (sample_key ?w)
      = Some ?w"
    using write_all_last [of ?w "[]" "map (cloudSpaceSample org) pre" "cloudspaceNodesGauge reg"]
    by (simp add: cloudSpaceLoop_registry)
  have final: "cloudspaceNodesGauge
      (snd (collect org (Inr (Defined \<lparr>cs_items = Defined (pre @ cloudSpace # post)\<rparr>)) r2 r3 reg))
      (sample_key ?w) = Some ?w"
    if "sample_key ?w \<notin> sample_key ` cloudSpaceSample org ` set post"
    using that
      write_all_last [of ?w "map (cloudSpaceSample org) post" "map (cloudSpaceSample org) pre"
        "cloudspaceNodesGauge reg"]
    by (simp add: collect_registry cloudSpaceWrites_def passItems_def chain_def image_image)
  show ?thesis using w step final cloudSpaceSample_value [of org cloudSpace] by metis
qed

text \<open>
  The scenario of the test suite: one item named \<open>cloudspace-1\<close> in region
  \<open>us-central-dfw-1\<close> with two assigned servers yields the value 2.
\<close>

theorem cloudspace_nodes_total_counts_assigned_servers_witness:
  "cloudspaceNodesGauge
     (snd (collect ''org-test''
        (Inr (Defined \<lparr>cs_items = Defined
           [cloudSpace_of (Defined ''cloudspace-1'') (Defined ''us-central-dfw-1'')
              (Defined (fmupd ''server-1'' () (fmupd ''server-2'' () fmempty)))]\<rparr>))
        (Inr (Defined \<lparr>snp_items = Defined []\<rparr>))
        (Inr (Defined \<lparr>odp_items = Defined []\<rparr>)) new_registry))
     ''cloudspace:cloudspace-1,cloudspace_region:us-central-dfw-1,namespace:org-test,''
   = Some ([(''namespace'', ''org-test''), (''cloudspace'', ''cloudspace-1''),
            (''cloudspace_region'', ''us-central-dfw-1'')], 2)"
proof -
  have sample: "cloudSpaceSample ''org-test''
      (cloudSpace_of (Defined ''cloudspace-1'') (Defined ''us-central-dfw-1'')
         (Defined (fmupd ''server-1'' () (fmupd ''server-2'' () fmempty))))
      = ([(''namespace'', ''org-test''), (''cloudspace'', ''cloudspace-1''),
          (''cloudspace_region'', ''us-central-dfw-1'')], 2)"
    by (simp add: cloudSpaceSample_def cloudSpace_of_def chain_def or_string_def or_object_def
          fcard_finsert_if)
  have count: "spec_nodeCount
      (cloudSpace_of (Defined ''cloudspace-1'') (Defined ''us-central-dfw-1'')
         (Defined (fmupd ''server-1'' () (fmupd ''server-2'' () fmempty)))) = 2"
    by (simp add: spec_nodeCount_def cloudSpace_of_def fcard_finsert_if)
  have key: "sample_key ([(''namespace'', ''org-test''), (''cloudspace'', ''cloudspace-1''),
      (''cloudspace_region'', ''us-central-dfw-1'')], 2)
      = ''cloudspace:cloudspace-1,cloudspace_region:us-central-dfw-1,namespace:org-test,''"
    by (simp add: sample_key_def hashObject_def)
  show ?thesis
    using cloudspace_nodes_total_counts_assigned_servers
      [of "''org-test''"
          "cloudSpace_of (Defined ''cloudspace-1'') (Defined ''us-central-dfw-1'')
             (Defined (fmupd ''server-1'' () (fmupd ''server-2'' () fmempty)))"
          "[]" new_registry "[]"
          "Inr (Defined \<lparr>snp_items = Defined []\<rparr>)" "Inr (Defined \<lparr>odp_items = Defined []\<rparr>)"]
    by (simp add: sample count key)
qed

section \<open>Defaults of missing fields\<close>

lemma or_string_missing: "is_missing x \<Longrightarrow> or_string x d = d"
  by (cases x) (simp_all add: is_missing_def or_string_def)

lemma or_number_missing: "is_missing x \<Longrightarrow> or_number x d = d"
  by (cases x) (simp_all add: is_missing_def or_number_def)

lemma or_object_missing: "is_missing x \<Longrightarrow> or_object x d = d"
  by (cases x) (simp_all add: is_missing_def or_object_def)

lemma cloudSpaceSample_eq:
  "cloudSpaceSample org c =
     ([(''namespace'', org),
       (''cloudspace'', or_string (chain (cs_metadata c) meta_name) ''unknown''),
       (''cloudspace_region'', or_string (chain (cs_spec c) cs_region) ''unknown'')],
      int (fcard (fmdom (or_object (chain (cs_status c) cs_assignedServers) fmempty))))"
  by (simp add: cloudSpaceSample_def Let_def)

lemma spotDesiredSample_eq:
  "spotDesiredSample org p =
     ([(''namespace'', org),
       (''cloudspace'', or_string (chain (snp_spec p) snp_cloudSpace) ''unknown''),
       (''nodepool'', or_string (chain (snp_metadata p) meta_name) ''unknown''),
       (''serverclass'', or_string (chain (snp_spec p) snp_serverClass) ''unknown'')],
      or_number (chain (snp_spec p) snp_desired) 0)"
  by (simp add: spotDesiredSample_def spotNodePoolSamples_def Let_def)

lemma spotWonSample_eq:
  "spotWonSample org p =
     ([(''namespace'', org),
       (''cloudspace'', or_string (chain (snp_spec p) snp_cloudSpace) ''unknown''),
       (''nodepool'', or_string (chain (snp_metadata p) meta_name) ''unknown''),
       (''serverclass'', or_string (chain (snp_spec p) snp_serverClass) ''unknown''),
       (''bid_status'', or_string (chain (snp_status p) snp_bidStatus) ''unknown'')],
      or_number (chain (snp_status p) snp_wonCount) 0)"
  by (simp add: spotWonSample_def spotNodePoolSamples_def Let_def)

lemma onDemandDesiredSample_eq:
  "onDemandDesiredSample org q =
     ([(''namespace'', org),
       (''cloudspace'', or_string (chain (odp_spec q) odp_cloudSpace) ''unknown''),
       (''nodepool'', or_string (chain (odp_metadata q) meta_name) ''unknown''),
       (''serverclass'', or_string (chain (odp_spec q) odp_serverClass) ''unknown'')],
      or_number (chain (odp_spec q) odp_desired) 0)"
  by (simp add: onDemandDesiredSample_def onDemandNodePoolSamples_def Let_def)

lemma onDemandReservedSample_eq:
  "onDemandReservedSample org q =
     ([(''namespace'', org),
       (''cloudspace'', or_string (chain (odp_spec q) odp_cloudSpace) ''unknown''),
       (''nodepool'', or_string (chain (odp_metadata q) meta_name) ''unknown''),
       (''serverclass'', or_string (chain (odp_spec q) odp_serverClass) ''unknown''),
       (''reserved_status'', or_string (chain (odp_status q) odp_reservedStatus) ''unknown'')],
      or_number (chain (odp_status q) odp_reservedCount) 0)"
  by (simp add: onDemandReservedSample_def onDemandNodePoolSamples_def Let_def)

lemmas sample_eqs = cloudSpaceSample_eq spotDesiredSample_eq spotWonSample_eq
  onDemandDesiredSample_eq onDemandReservedSample_eq

lemmas missing_defaults = or_string_missing or_number_missing or_object_missing

lemma cloudSpace_defaults:
  "(is_missing (chain (cs_metadata c) meta_name) \<longrightarrow>
      label ''cloudspace'' (cloudSpaceSample org c) = Some ''unknown'')
   \<and> (is_missing (chain (cs_spec c) cs_region) \<longrightarrow>
      label ''cloudspace_region'' (cloudSpaceSample org c) = Some ''unknown'')"
  by (simp add: sample_eqs label_def missing_defaults)

lemma spotNodePool_label_defaults:
  "(is_missing (chain (snp_metadata p) meta_name) \<longrightarrow>
      label ''nodepool'' (spotDesiredSample org p) = Some ''unknown''
      \<and> label ''nodepool'' (spotWonSample org p) = Some ''unknown'')
   \<and> (is_missing (chain (snp_spec p) snp_cloudSpace) \<longrightarrow>
      label ''cloudspace'' (spotDesiredSample org p) = Some ''unknown''
      \<and> label ''cloudspace'' (spotWonSample org p) = Some ''unknown'')
   \<and> (is_missing (chain (snp_spec p) snp_serverClass) \<longrightarrow>
      label ''serverclass'' (spotDesiredSample org p) = Some ''unknown''
      \<and> label ''serverclass'' (spotWonSample org p) = Some ''unknown'')
   \<and> (is_missing (chain (snp_status p) snp_bidStatus) \<longrightarrow>
      label ''bid_status'' (spotWonSample org p) = Some ''unknown'')"
  by (simp add: sample_eqs label_def missing_defaults)

lemma spotNodePool_value_defaults:
  "(is_missing (chain (snp_spec p) snp_desired) \<longrightarrow> snd (spotDesiredSample org p) = 0)
   \<and> (is_missing (chain (snp_status p) snp_wonCount) \<longrightarrow> snd (spotWonSample org p) = 0)"
  by (simp add: sample_eqs missing_defaults)

lemma onDemandNodePool_label_defaults:
  "(is_missing (chain (odp_metadata q) meta_name) \<longrightarrow>
      label ''nodepool'' (onDemandDesiredSample org q) = Some ''unknown''
      \<and> label ''nodepool'' (onDemandReservedSample org q) = Some ''unknown'')
   \<and> (is_missing (chain (odp_spec q) odp_cloudSpace) \<longrightarrow>
      label ''cloudspace'' (onDemandDesiredSample org q) = Some ''unknown''
      \<and> label ''cloudspace'' (onDemandReservedSample org q) = Some ''unknown'')
   \<and> (is_missing (chain (odp_spec q) odp_serverClass) \<longrightarrow>
      label ''serverclass'' (onDemandDesiredSample org q) = Some ''unknown''
      \<and> label ''serverclass'' (onDemandReservedSample org q) = Some ''unknown'')
   \<and> (is_missing (chain (odp_status q) odp_reservedStatus) \<longrightarrow>
      label ''reserved_status'' (onDemandReservedSample org q) = Some ''unknown'')"
  by (simp add: sample_eqs label_def missing_defaults)

lemma onDemandNodePool_value_defaults:
  "(is_missing (chain (odp_spec q) odp_desired) \<longrightarrow> snd (onDemandDesiredSample org q) = 0)
   \<and> (is_missing (chain (odp_status q) odp_reservedCount) \<longrightarrow>
        snd (onDemandReservedSample org q) = 0)"
  by (simp add: sample_eqs missing_defaults)

lemma collect_resolves:
  "fst (collect org (Inr cloudSpaces) (Inr spotNodePools) (Inr onDemandNodePools) reg) = Inr ()"
  by (simp add: collect_outcome)

lemma pass_of_registry:
  "snd (pass_of org cs ps qs reg) =
     \<lparr>cloudspaceNodesGauge = write_all (map (cloudSpaceSample org) cs) (cloudspaceNodesGauge reg),
      spotNodePoolDesiredGauge =
        write_all (map (spotDesiredSample org) ps) (spotNodePoolDesiredGauge reg),
      spotNodePoolWonCountGauge =
        write_all (map (spotWonSample org) ps) (spotNodePoolWonCountGauge reg),
      onDemandNodePoolDesiredGauge =
        write_all (map (onDemandDesiredSample org) qs) (onDemandNodePoolDesiredGauge reg),
      onDemandNodePoolReservedCountGauge =
        write_all (map (onDemandReservedSample org) qs) (onDemandNodePoolReservedCountGauge reg)\<rparr>"
proof -
  have "(\<lambda>pool. fst (spotNodePoolSamples org pool)) = spotDesiredSample org"
    "(\<lambda>pool. snd (spotNodePoolSamples org pool)) = spotWonSample org"
    "(\<lambda>pool. fst (onDemandNodePoolSamples org pool)) = onDemandDesiredSample org"
    "(\<lambda>pool. snd (onDemandNodePoolSamples org pool)) = onDemandReservedSample org"
    by (simp_all add: fun_eq_iff spotDesiredSample_def spotWonSample_def
          onDemandDesiredSample_def onDemandReservedSample_def)
  then show ?thesis
    by (simp add: pass_of_def collect_registry cloudSpaceWrites_def spotDesiredWrites_def
          spotWonWrites_def onDemandDesiredWrites_def onDemandReservedWrites_def passItems_def
          chain_def)
qed

lemma write_all_published:
  "sample_key (f x) \<notin> sample_key ` f ` set post \<Longrightarrow>
     write_all (map f (pre @ x # post)) g (sample_key (f x)) = Some (f x)"
  using write_all_last [of "f x" "map f post" "map f pre" g] by (simp add: image_image)

lemma entry_of_sample:
  "g k = Some w \<Longrightarrow> entry_label g k name = label name w"
  "g k = Some w \<Longrightarrow> entry_value g k = Some (snd w)"
  by (cases w; simp add: entry_label_def entry_value_def label_def)+

text \<open>
  C2. A missing field raises no error and resolves to its default. Whenever the three
  list calls succeed, \<open>collect\<close> resolves, whatever the items hold. After a pass over
  any three lists, the registry holds for every listed item the label \<open>unknown\<close> in
  place of a missing \<open>metadata.name\<close>, \<open>spec.region\<close>, \<open>spec.cloudSpace\<close>,
  \<open>spec.serverClass\<close>, \<open>status.bidStatus\<close> or \<open>status.reservedStatus\<close>, and the value 0
  in place of a missing \<open>spec.desired\<close>, \<open>status.wonCount\<close> or \<open>status.reservedCount\<close>. This
  is read off the gauge under the key of the item's sample, for an item whose sample
  no later item of the list has replaced. A field is missing also when the object
  that would hold it is missing.
\<close>

theorem missing_fields_resolve_to_defaults:
  fixes org :: string and reg :: registry
    and c :: "'srv CloudSpace" and cpre cpost :: "'srv CloudSpace list"
    and p :: SpotNodePool and ppre ppost :: "SpotNodePool list"
    and q :: OnDemandNodePool and qpre qpost :: "OnDemandNodePool list"
    and cloudSpaces :: "'srv CloudSpaceList optional"
  defines "R \<equiv> snd (pass_of org (cpre @ c # cpost) (ppre @ p # ppost) (qpre @ q # qpost) reg)"
  shows
  "fst (collect org (Inr cloudSpaces) (Inr spotNodePools) (Inr onDemandNodePools) reg) = Inr ()
   \<and> (sample_key (cloudSpaceSample org c)
        \<notin> sample_key ` cloudSpaceSample org ` set cpost \<longrightarrow>
      (is_missing (chain (cs_metadata c) meta_name) \<longrightarrow>
         entry_label (cloudspaceNodesGauge R) (sample_key (cloudSpaceSample org c)) ''cloudspace''
           = Some ''unknown'') \<and>
      (is_missing (chain (cs_spec c) cs_region) \<longrightarrow>
         entry_label (cloudspaceNodesGauge R) (sample_key (cloudSpaceSample org c)) ''cloudspace_region''
           = Some ''unknown''))
   \<and> (sample_key (spotDesiredSample org p)
        \<notin> sample_key ` spotDesiredSample org ` set ppost \<longrightarrow>
      (is_missing (chain (snp_metadata p) meta_name) \<longrightarrow>
         entry_label (spotNodePoolDesiredGauge R) (sample_key (spotDesiredSample org p)) ''nodepool''
           = Some ''unknown'') \<and>
      (is_missing (chain (snp_spec p) snp_cloudSpace) \<longrightarrow>
         entry_label (spotNodePoolDesiredGauge R) (sample_key (spotDesiredSample org p)) ''cloudspace''
           = Some ''unknown'') \<and>
      (is_missing (chain (snp_spec p) snp_serverClass) \<longrightarrow>
         entry_label (spotNodePoolDesiredGauge R) (sample_key (spotDesiredSample org p)) ''serverclass''
           = Some ''unknown'') \<and>
      (is_missing (chain (snp_spec p) snp_desired) \<longrightarrow>
         entry_value (spotNodePoolDesiredGauge R) (sample_key (spotDesiredSample org p)) = Some 0))
   \<and> (sample_key (spotWonSample org p)
        \<notin> sample_key ` spotWonSample org ` set ppost \<longrightarrow>
      (is_missing (chain (snp_metadata p) meta_name) \<longrightarrow>
         entry_label (spotNodePoolWonCountGauge R) (sample_key (spotWonSample org p)) ''nodepool''
           = Some ''unknown'') \<and>
      (is_missing (chain (snp_spec p) snp_cloudSpace) \<longrightarrow>
         entry_label (spotNodePoolWonCountGauge R) (sample_key (spotWonSample org p)) ''cloudspace''
           = Some ''unknown'') \<and>
      (is_missing (chain (snp_spec p) snp_serverClass) \<longrightarrow>
         entry_label (spotNodePoolWonCountGauge R) (sample_key (spotWonSample org p)) ''serverclass''
           = Some ''unknown'') \<and>
      (is_missing (chain (snp_status p) snp_bidStatus) \<longrightarrow>
         entry_label (spotNodePoolWonCountGauge R) (sample_key (spotWonSample org p)) ''bid_status''
           = Some ''unknown'') \<and>
      (is_missing (chain (snp_status p) snp_wonCount) \<longrightarrow>
         entry_value (spotNodePoolWonCountGauge R) (sample_key (spotWonSample org p)) = Some 0))
   \<and> (sample_key (onDemandDesiredSample org q)
        \<notin> sample_key ` onDemandDesiredSample org ` set qpost \<longrightarrow>
      (is_missing (chain (odp_metadata q) meta_name) \<longrightarrow>
         entry_label (onDemandNodePoolDesiredGauge R) (sample_key (onDemandDesiredSample org q)) ''nodepool''
           = Some ''unknown'') \<and>
      (is_missing (chain (odp_spec q) odp_cloudSpace) \<longrightarrow>
         entry_label (onDemandNodePoolDesiredGauge R) (sample_key (onDemandDesiredSample org q)) ''cloudspace''
           = Some ''unknown'') \<and>
      (is_missing (chain (odp_spec q) odp_serverClass) \<longrightarrow>
         entry_label (onDemandNodePoolDesiredGauge R) (sample_key (onDemandDesiredSample org q)) ''serverclass''
           = Some ''unknown'') \<and>
      (is_missing (chain (odp_spec q) odp_desired) \<longrightarrow>
         entry_value (onDemandNodePoolDesiredGauge R) (sample_key (onDemandDesiredSample org q)) = Some 0))
   \<and> (sample_key (onDemandReservedSample org q)
        \<notin> sample_key ` onDemandReservedSample org ` set qpost \<longrightarrow>
      (is_missing (chain (odp_metadata q) meta_name) \<longrightarrow>
         entry_label (onDemandNodePoolReservedCountGauge R) (sample_key (onDemandReservedSample org q)) ''nodepool''
           = Some ''unknown'') \<and>
      (is_missing (chain (odp_spec q) odp_cloudSpace) \<longrightarrow>
         entry_label (onDemandNodePoolReservedCountGauge R) (sample_key (onDemandReservedSample org q)) ''cloudspace''
           = Some ''unknown'') \<and>
      (is_missing (chain (odp_spec q) odp_serverClass) \<longrightarrow>
         entry_label (onDemandNodePoolReservedCountGauge R) (sample_key (onDemandReservedSample org q)) ''serverclass''
           = Some ''unknown'') \<and>
      (is_missing (chain (odp_status q) odp_reservedStatus) \<longrightarrow>
         entry_label (onDemandNodePoolReservedCountGauge R) (sample_key (onDemandReservedSample org q)) ''reserved_status''
           = Some ''unknown'') \<and>
      (is_missing (chain (odp_status q) odp_reservedCount) \<longrightarrow>
         entry_value (onDemandNodePoolReservedCountGauge R) (sample_key (onDemandReservedSample org q)) = Some 0))"
proof -
  note reg = R_def pass_of_registry
  have c: "cloudspaceNodesGauge R (sample_key (cloudSpaceSample org c))
      = Some (cloudSpaceSample org c)"
    if "sample_key (cloudSpaceSample org c) \<notin> sample_key ` cloudSpaceSample org ` set cpost"
    using that write_all_published [of "cloudSpaceSample org" c cpost cpre "cloudspaceNodesGauge reg"]
    by (simp add: reg)
  have pd: "spotNodePoolDesiredGauge R (sample_key (spotDesiredSample org p))
      = Some (spotDesiredSample org p)"
    if "sample_key (spotDesiredSample org p) \<notin> sample_key ` spotDesiredSample org ` set ppost"
    using that write_all_published [of "spotDesiredSample org" p ppost ppre "spotNodePoolDesiredGauge reg"]
    by (simp add: reg)
  have pw: "spotNodePoolWonCountGauge R (sample_key (spotWonSample org p))
      = Some (spotWonSample org p)"
    if "sample_key (spotWonSample org p) \<notin> sample_key ` spotWonSample org ` set ppost"
    using that write_all_published [of "spotWonSample org" p ppost ppre "spotNodePoolWonCountGauge reg"]
    by (simp add: reg)
  have qd: "onDemandNodePoolDesiredGauge R (sample_key (onDemandDesiredSample org q))
      = Some (onDemandDesiredSample org q)"
    if "sample_key (onDemandDesiredSample org q)
          \<notin> sample_key ` onDemandDesiredSample org ` set qpost"
    using that write_all_published [of "onDemandDesiredSample org" q qpost qpre "onDemandNodePoolDesiredGauge reg"]
    by (simp add: reg)
  have qr: "onDemandNodePoolReservedCountGauge R (sample_key (onDemandReservedSample org q))
      = Some (onDemandReservedSample org q)"
    if "sample_key (onDemandReservedSample org q)
          \<notin> sample_key ` onDemandReservedSample org ` set qpost"
    using that write_all_published [of "onDemandReservedSample org" q qpost qpre "onDemandNodePoolReservedCountGauge reg"]
    by (simp add: reg)
  have g1: "sample_key (cloudSpaceSample org c) \<notin> sample_key ` cloudSpaceSample org ` set cpost \<longrightarrow>
      (is_missing (chain (cs_metadata c) meta_name) \<longrightarrow>
         entry_label (cloudspaceNodesGauge R) (sample_key (cloudSpaceSample org c)) ''cloudspace''
           = Some ''unknown'') \<and>
      (is_missing (chain (cs_spec c) cs_region) \<longrightarrow>
         entry_label (cloudspaceNodesGauge R) (sample_key (cloudSpaceSample org c))
           ''cloudspace_region'' = Some ''unknown'')"
  proof
    assume kept: "sample_key (cloudSpaceSample org c)
      \<notin> sample_key ` cloudSpaceSample org ` set cpost"
    show "(is_missing (chain (cs_metadata c) meta_name) \<longrightarrow>
         entry_label (cloudspaceNodesGauge R) (sample_key (cloudSpaceSample org c)) ''cloudspace''
           = Some ''unknown'') \<and>
      (is_missing (chain (cs_spec c) cs_region) \<longrightarrow>
         entry_label (cloudspaceNodesGauge R) (sample_key (cloudSpaceSample org c))
           ''cloudspace_region'' = Some ''unknown'')"
      using cloudSpace_defaults [of c org]
      by (simp add: entry_of_sample
            [where g = "cloudspaceNodesGauge R" and k = "sample_key (cloudSpaceSample org c)",
             OF c [OF kept]])
  qed
  have g2: "entry_label (spotNodePoolDesiredGauge R) (sample_key (spotDesiredSample org p)) name
            = label name (spotDesiredSample org p)
          \<and> entry_value (spotNodePoolDesiredGauge R) (sample_key (spotDesiredSample org p))
            = Some (snd (spotDesiredSample org p))"
    if kept: "sample_key (spotDesiredSample org p) \<notin> sample_key ` spotDesiredSample org ` set ppost" for name
    using entry_of_sample
        [where g = "spotNodePoolDesiredGauge R" and k = "sample_key (spotDesiredSample org p)", OF pd [OF kept]]
    by simp
  have g3: "entry_label (spotNodePoolWonCountGauge R) (sample_key (spotWonSample org p)) name
            = label name (spotWonSample org p)
          \<and> entry_value (spotNodePoolWonCountGauge R) (sample_key (spotWonSample org p))
            = Some (snd (spotWonSample org p))"
    if kept: "sample_key (spotWonSample org p) \<notin> sample_key ` spotWonSample org ` set ppost" for name
    using entry_of_sample
        [where g = "spotNodePoolWonCountGauge R" and k = "sample_key (spotWonSample org p)", OF pw [OF kept]]
    by simp
  have g4: "entry_label (onDemandNodePoolDesiredGauge R) (sample_key (onDemandDesiredSample org q))
              name = label name (onDemandDesiredSample org q)
          \<and> entry_value (onDemandNodePoolDesiredGauge R)
              (sample_key (onDemandDesiredSample org q))
            = Some (snd (onDemandDesiredSample org q))"
    if kept: "sample_key (onDemandDesiredSample org q)
        \<notin> sample_key ` onDemandDesiredSample org ` set qpost" for name
    using entry_of_sample
        [where g = "onDemandNodePoolDesiredGauge R" and k = "sample_key (onDemandDesiredSample org q)", OF qd [OF kept]]
    by simp
  have g5: "entry_label (onDemandNodePoolReservedCountGauge R)
              (sample_key (onDemandReservedSample org q)) name
            = label name (onDemandReservedSample org q)
          \<and> entry_value (onDemandNodePoolReservedCountGauge R)
              (sample_key (onDemandReservedSample org q))
            = Some (snd (onDemandReservedSample org q))"
    if kept: "sample_key (onDemandReservedSample org q)
        \<notin> sample_key ` onDemandReservedSample org ` set qpost" for name
    using entry_of_sample
        [where g = "onDemandNodePoolReservedCountGauge R" and k = "sample_key (onDemandReservedSample org q)", OF qr [OF kept]]
    by simp
  show ?thesis
    using g1 spotNodePool_label_defaults [of p org] spotNodePool_value_defaults [of p org]
      onDemandNodePool_label_defaults [of q org] onDemandNodePool_value_defaults [of q org]
    by (simp add: collect_resolves g2 g3 g4 g5)
qed

text \<open>
  The scenario of the test suite: one item of each kind whose \<open>metadata\<close>, \<open>spec\<close> and
  \<open>status\<close> are empty objects. Every label read from the registry is \<open>unknown\<close> and every
  value is 0.
\<close>

theorem missing_fields_resolve_to_defaults_witness:
  "fst (pass_of ''org-test'' [empty_cloudSpace] [empty_spotNodePool] [empty_onDemandNodePool]
          new_registry) = Inr ()
   \<and> entry_label (cloudspaceNodesGauge
        (snd (pass_of ''org-test'' [empty_cloudSpace] [empty_spotNodePool]
              [empty_onDemandNodePool] new_registry)))
        ''cloudspace:unknown,cloudspace_region:unknown,namespace:org-test,'' ''cloudspace'' = Some ''unknown''
   \<and> entry_label (cloudspaceNodesGauge
        (snd (pass_of ''org-test'' [empty_cloudSpace] [empty_spotNodePool]
              [empty_onDemandNodePool] new_registry)))
        ''cloudspace:unknown,cloudspace_region:unknown,namespace:org-test,'' ''cloudspace_region'' = Some ''unknown''
   \<and> entry_label (spotNodePoolDesiredGauge
        (snd (pass_of ''org-test'' [empty_cloudSpace] [empty_spotNodePool]
              [empty_onDemandNodePool] new_registry)))
        ''cloudspace:unknown,namespace:org-test,nodepool:unknown,serverclass:unknown,'' ''nodepool'' = Some ''unknown''
   \<and> entry_label (spotNodePoolDesiredGauge
        (snd (pass_of ''org-test'' [empty_cloudSpace] [empty_spotNodePool]
              [empty_onDemandNodePool] new_registry)))
        ''cloudspace:unknown,namespace:org-test,nodepool:unknown,serverclass:unknown,'' ''cloudspace'' = Some ''unknown''
   \<and> entry_label (spotNodePoolDesiredGauge
        (snd (pass_of ''org-test'' [empty_cloudSpace] [empty_spotNodePool]
              [empty_onDemandNodePool] new_registry)))
        ''cloudspace:unknown,namespace:org-test,nodepool:unknown,serverclass:unknown,'' ''serverclass'' = Some ''unknown''
   \<and> entry_value (spotNodePoolDesiredGauge
        (snd (pass_of ''org-test'' [empty_cloudSpace] [empty_spotNodePool]
              [empty_onDemandNodePool] new_registry)))
        ''cloudspace:unknown,namespace:org-test,nodepool:unknown,serverclass:unknown,'' = Some 0
   \<and> entry_label (spotNodePoolWonCountGauge
        (snd (pass_of ''org-test'' [empty_cloudSpace] [empty_spotNodePool]
              [empty_onDemandNodePool] new_registry)))
        ''bid_status:unknown,cloudspace:unknown,namespace:org-test,nodepool:unknown,serverclass:unknown,'' ''nodepool'' = Some ''unknown''
   \<and> entry_label (spotNodePoolWonCountGauge
        (snd (pass_of ''org-test'' [empty_cloudSpace] [empty_spotNodePool]
              [empty_onDemandNodePool] new_registry)))
        ''bid_status:unknown,cloudspace:unknown,namespace:org-test,nodepool:unknown,serverclass:unknown,'' ''bid_status'' = Some ''unknown''
   \<and> entry_value (spotNodePoolWonCountGauge
        (snd (pass_of ''org-test'' [empty_cloudSpace] [empty_spotNodePool]
              [empty_onDemandNodePool] new_registry)))
        ''bid_status:unknown,cloudspace:unknown,namespace:org-test,nodepool:unknown,serverclass:unknown,'' = Some 0
   \<and> entry_label (onDemandNodePoolDesiredGauge
        (snd (pass_of ''org-test'' [empty_cloudSpace] [empty_spotNodePool]
              [empty_onDemandNodePool] new_registry)))
        ''cloudspace:unknown,namespace:org-test,nodepool:unknown,serverclass:unknown,'' ''nodepool'' = Some ''unknown''
   \<and> entry_label (onDemandNodePoolDesiredGauge
        (snd (pass_of ''org-test'' [empty_cloudSpace] [empty_spotNodePool]
              [empty_onDemandNodePool] new_registry)))
        ''cloudspace:unknown,namespace:org-test,nodepool:unknown,serverclass:unknown,'' ''cloudspace'' = Some ''unknown''
   \<and> entry_label (onDemandNodePoolDesiredGauge
        (snd (pass_of ''org-test'' [empty_cloudSpace] [empty_spotNodePool]
              [empty_onDemandNodePool] new_registry)))
        ''cloudspace:unknown,namespace:org-test,nodepool:unknown,serverclass:unknown,'' ''serverclass'' = Some ''unknown''
   \<and> entry_value (onDemandNodePoolDesiredGauge
        (snd (pass_of ''org-test'' [empty_cloudSpace] [empty_spotNodePool]
              [empty_onDemandNodePool] new_registry)))
        ''cloudspace:unknown,namespace:org-test,nodepool:unknown,serverclass:unknown,'' = Some 0
   \<and> entry_label (onDemandNodePoolReservedCountGauge
        (snd (pass_of ''org-test'' [empty_cloudSpace] [empty_spotNodePool]
              [empty_onDemandNodePool] new_registry)))
        ''cloudspace:unknown,namespace:org-test,nodepool:unknown,reserved_status:unknown,serverclass:unknown,'' ''nodepool'' = Some ''unknown''
   \<and> entry_label (onDemandNodePoolReservedCountGauge
        (snd (pass_of ''org-test'' [empty_cloudSpace] [empty_spotNodePool]
              [empty_onDemandNodePool] new_registry)))
        ''cloudspace:unknown,namespace:org-test,nodepool:unknown,reserved_status:unknown,serverclass:unknown,'' ''reserved_status'' = Some ''unknown''
   \<and> entry_value (onDemandNodePoolReservedCountGauge
        (snd (pass_of ''org-test'' [empty_cloudSpace] [empty_spotNodePool]
              [empty_onDemandNodePool] new_registry)))
        ''cloudspace:unknown,namespace:org-test,nodepool:unknown,reserved_status:unknown,serverclass:unknown,'' = Some 0"
proof -
  have missing:
    "is_missing (chain (cs_metadata empty_cloudSpace) meta_name)"
    "is_missing (chain (cs_spec empty_cloudSpace) cs_region)"
    "is_missing (chain (snp_metadata empty_spotNodePool) meta_name)"
    "is_missing (chain (snp_spec empty_spotNodePool) snp_cloudSpace)"
    "is_missing (chain (snp_spec empty_spotNodePool) snp_serverClass)"
    "is_missing (chain (snp_spec empty_spotNodePool) snp_desired)"
    "is_missing (chain (snp_status empty_spotNodePool) snp_wonCount)"
    "is_missing (chain (snp_status empty_spotNodePool) snp_bidStatus)"
    "is_missing (chain (odp_metadata empty_onDemandNodePool) meta_name)"
    "is_missing (chain (odp_spec empty_onDemandNodePool) odp_cloudSpace)"
    "is_missing (chain (odp_spec empty_onDemandNodePool) odp_serverClass)"
    "is_missing (chain (odp_spec empty_onDemandNodePool) odp_desired)"
    "is_missing (chain (odp_status empty_onDemandNodePool) odp_reservedCount)"
    "is_missing (chain (odp_status empty_onDemandNodePool) odp_reservedStatus)"
    by (simp_all add: is_missing_def chain_def empty_cloudSpace_def empty_spotNodePool_def
          empty_onDemandNodePool_def cloudSpace_of_def spotNodePool_of_def
          onDemandNodePool_of_def)
  have keys:
    "sample_key (cloudSpaceSample ''org-test'' empty_cloudSpace) = ''cloudspace:unknown,cloudspace_region:unknown,namespace:org-test,''"
    "sample_key (spotDesiredSample ''org-test'' empty_spotNodePool) = ''cloudspace:unknown,namespace:org-test,nodepool:unknown,serverclass:unknown,''"
    "sample_key (spotWonSample ''org-test'' empty_spotNodePool) = ''bid_status:unknown,cloudspace:unknown,namespace:org-test,nodepool:unknown,serverclass:unknown,''"
    "sample_key (onDemandDesiredSample ''org-test'' empty_onDemandNodePool) = ''cloudspace:unknown,namespace:org-test,nodepool:unknown,serverclass:unknown,''"
    "sample_key (onDemandReservedSample ''org-test'' empty_onDemandNodePool) = ''cloudspace:unknown,namespace:org-test,nodepool:unknown,reserved_status:unknown,serverclass:unknown,''"
    using missing
    by (simp_all add: sample_eqs missing_defaults sample_key_def hashObject_def)
  show ?thesis
    using missing_fields_resolve_to_defaults
      [where org = "''org-test''" and reg = new_registry
         and c = empty_cloudSpace and cpre = "[]" and cpost = "[]"
         and p = empty_spotNodePool and ppre = "[]" and ppost = "[]"
         and q = empty_onDemandNodePool and qpre = "[]" and qpost = "[]"
         and cloudSpaces = "Defined \<lparr>cs_items = Defined [empty_cloudSpace]\<rparr>"
         and spotNodePools = "Defined \<lparr>snp_items = Defined [empty_spotNodePool]\<rparr>"
         and onDemandNodePools = "Defined \<lparr>odp_items = Defined [empty_onDemandNodePool]\<rparr>"]
    by (simp add: missing keys pass_of_def)
qed

section \<open>Falsy fields\<close>

lemma or_falsy [simp]:
  "or_string Undefined d = d" "or_string Null d = d" "or_string (Defined []) d = d"
  "or_number Undefined k = k" "or_number Null k = k" "or_number (Defined 0) k = k"
  by (simp_all add: or_string_def or_number_def)

lemma cloudSpace_of_sample:
  "cloudSpaceSample org (cloudSpace_of n r a) =
     ([(''namespace'', org), (''cloudspace'', or_string n ''unknown''),
       (''cloudspace_region'', or_string r ''unknown'')],
      int (fcard (fmdom (or_object a fmempty))))"
  by (simp add: cloudSpaceSample_eq cloudSpace_of_def chain_def)

lemma spotNodePool_of_samples:
  "spotNodePoolSamples org (spotNodePool_of n cs sc d w b) =
     (([(''namespace'', org), (''cloudspace'', or_string cs ''unknown''),
        (''nodepool'', or_string n ''unknown''), (''serverclass'', or_string sc ''unknown'')],
       or_number d 0),
      ([(''namespace'', org), (''cloudspace'', or_string cs ''unknown''),
        (''nodepool'', or_string n ''unknown''), (''serverclass'', or_string sc ''unknown''),
        (''bid_status'', or_string b ''unknown'')],
       or_number w 0))"
  by (simp add: spotNodePoolSamples_def spotNodePool_of_def chain_def Let_def)








section \<open>Failure and emptiness of a pass\<close>

lemma no_items_no_writes:
  "absent_or_empty (chain a cs_items) \<Longrightarrow> cloudSpaceWrites org (Inr a) = []"
  "absent_or_empty (chain b snp_items) \<Longrightarrow> spotDesiredWrites org (Inr b) = []"
  "absent_or_empty (chain b snp_items) \<Longrightarrow> spotWonWrites org (Inr b) = []"
  "absent_or_empty (chain c odp_items) \<Longrightarrow> onDemandDesiredWrites org (Inr c) = []"
  "absent_or_empty (chain c odp_items) \<Longrightarrow> onDemandReservedWrites org (Inr c) = []"
  by (auto simp: absent_or_empty_def cloudSpaceWrites_def spotDesiredWrites_def spotWonWrites_def
        onDemandDesiredWrites_def onDemandReservedWrites_def passItems_def split: optional.splits)

lemma collect_fails_iff: "isl (fst (collect org r1 r2 r3 reg)) \<longleftrightarrow> isl r1 \<or> isl r2 \<or> isl r3"
  by (cases r1; cases r2; cases r3) (simp_all add: collect_outcome)

lemma collect_no_items:
  assumes "absent_or_empty (chain a cs_items)" and "absent_or_empty (chain b snp_items)"
    and "absent_or_empty (chain c odp_items)"
  shows "collect org (Inr a) (Inr b) (Inr c) reg = (Inr (), reg)"
proof (rule prod_eqI)
  show "fst (collect org (Inr a) (Inr b) (Inr c) reg) = fst (Inr (), reg)"
    by (simp add: collect_outcome)
  show "snd (collect org (Inr a) (Inr b) (Inr c) reg) = snd (Inr (), reg)"
    using assms by (simp add: collect_registry no_items_no_writes)
qed

text \<open>
  C6. \<open>collect\<close> rejects exactly when at least one of the three list calls rejects.
  When all three succeed and every \<open>items\<close> list is empty or absent (the response or its
  \<open>items\<close> member being \<open>undefined\<close> or \<open>null\<close>), \<open>collect\<close> resolves and leaves the registry as
  it was: no label combination is published.
\<close>

theorem collect_fails_iff_a_list_call_fails:
  "(isl (fst (collect org r1 r2 r3 reg)) \<longleftrightarrow> isl r1 \<or> isl r2 \<or> isl r3)
   \<and> (absent_or_empty (chain a cs_items) \<and> absent_or_empty (chain b snp_items)
        \<and> absent_or_empty (chain c odp_items) \<longrightarrow>
      collect org (Inr a) (Inr b) (Inr c) reg = (Inr (), reg))"
  using collect_fails_iff [of org r1 r2 r3 reg] collect_no_items [of a b c org reg] by blast

text \<open>
  The scenarios of the test suite: a rejected cloudspace call, and the three responses
  \<open>{}\<close>, \<open>null\<close> and \<open>undefined\<close>.
\<close>

theorem collect_fails_iff_a_list_call_fails_witness:
  "isl (fst (collect ''org-test'' (Inl (Error ''API Error'') :: error + unit CloudSpaceList optional)
          (Inr (Defined \<lparr>snp_items = Defined []\<rparr>)) (Inr (Defined \<lparr>odp_items = Defined []\<rparr>))
          new_registry))
   \<and> absent_or_empty (chain (Defined \<lparr>cs_items = Undefined\<rparr>
          :: unit CloudSpaceList optional) cs_items)
   \<and> absent_or_empty (chain (Null :: SpotNodePoolList optional) snp_items)
   \<and> absent_or_empty (chain (Undefined :: OnDemandNodePoolList optional) odp_items)
   \<and> collect ''org-test'' (Inr (Defined \<lparr>cs_items = Undefined\<rparr>) :: error + unit CloudSpaceList optional)
        (Inr Null) (Inr Undefined) new_registry = (Inr (), new_registry)"
  using collect_fails_iff_a_list_call_fails
    [of "''org-test''" "Inl (Error ''API Error'') :: error + unit CloudSpaceList optional"
        "Inr (Defined \<lparr>snp_items = Defined []\<rparr>)" "Inr (Defined \<lparr>odp_items = Defined []\<rparr>)"
        new_registry
        "Defined \<lparr>cs_items = Undefined\<rparr> :: unit CloudSpaceList optional" Null Undefined]
  by (simp add: absent_or_empty_def chain_def)

section \<open>Stale label combinations and failed passes\<close>


lemma colliding_samples:
  "spotDesiredSample ''org-test'' colliding_pool_a = (colliding_labels_a, 2)"
  "spotDesiredSample ''org-test'' colliding_pool_b = (colliding_labels_b, 5)"
  "sample_key (colliding_labels_a, v) = colliding_key"
  "sample_key (colliding_labels_b, v) = colliding_key"
  by (simp_all add: spotDesiredSample_def colliding_pool_a_def colliding_pool_b_def
        spotNodePool_of_samples colliding_labels_a_def colliding_labels_b_def colliding_key_def
        or_string_def or_number_def sample_key_def hashObject_def)

lemma colliding_keys:
  "hashObject colliding_labels_a = colliding_key" "hashObject colliding_labels_b = colliding_key"
  using colliding_samples(3,4) by (simp_all add: sample_key_def)

lemma cloudspace_samples:
  "cloudSpaceSample ''org-test'' cloudspace_1 =
     ([(''namespace'', ''org-test''), (''cloudspace'', ''cloudspace-1''),
       (''cloudspace_region'', ''us-central-dfw-1'')], 2)"
  "sample_key (cloudSpaceSample ''org-test'' cloudspace_1) = cloudspace_1_key"
  "sample_key (cloudSpaceSample ''org-test'' cloudspace_2) \<noteq> cloudspace_1_key"
  by (simp_all add: cloudspace_1_def cloudspace_2_def cloudSpace_of_sample or_string_def
        or_object_def fcard_finsert_if cloudspace_1_key_def sample_key_def hashObject_def)

text \<open>
  C8 does not hold as stated. A first pass publishes the desired count 2 of a spot
  node pool named \<open>p,serverclass:q\<close> of server class \<open>r\<close>. The next pass lists only a pool
  named \<open>p\<close> of server class \<open>q,serverclass:r\<close>, a different label combination. Both
  are stored under one key, so after the second pass the gauge holds the second
  combination alone: the first one, absent from the second pass, is gone.
\<close>

theorem colliding_labels_replace_stale_sample_counterexample:
  "fst (pass_of ''org-test'' ([] :: unit CloudSpace list) [colliding_pool_a] [] new_registry)
     = Inr ()
   \<and> spotNodePoolDesiredGauge
        (snd (pass_of ''org-test'' ([] :: unit CloudSpace list) [colliding_pool_a] []
                new_registry))
       = [colliding_key \<mapsto> (colliding_labels_a, 2)]
   \<and> colliding_labels_a
        \<notin> fst ` set (map (spotDesiredSample ''org-test'') [colliding_pool_b])
   \<and> fst (pass_of ''org-test'' ([] :: unit CloudSpace list) [colliding_pool_b] []
        (snd (pass_of ''org-test'' ([] :: unit CloudSpace list) [colliding_pool_a] []
                new_registry))) = Inr ()
   \<and> spotNodePoolDesiredGauge
        (snd (pass_of ''org-test'' ([] :: unit CloudSpace list) [colliding_pool_b] []
           (snd (pass_of ''org-test'' ([] :: unit CloudSpace list) [colliding_pool_a] []
                   new_registry))))
       = [colliding_key \<mapsto> (colliding_labels_b, 5)]"
  by (simp add: pass_of_registry colliding_samples gauge_set_def new_registry_def
        colliding_keys)
     (simp add: pass_of_def collect_outcome colliding_labels_a_def colliding_labels_b_def)

text \<open>
  C8, amended. \<open>collect\<close> clears nothing. For each of the five gauges, what is stored
  under a key that no sample of the current pass is written to is after the pass what
  it was before: a label combination published by an earlier pass stays, with its
  last value, unless the current pass writes a combination that has the same key.
\<close>

theorem collect_keeps_stale_label_combinations:
  "(k \<notin> sample_key ` set (cloudSpaceWrites org r1) \<longrightarrow>
      cloudspaceNodesGauge (snd (collect org r1 r2 r3 reg)) k = cloudspaceNodesGauge reg k)
   \<and> (k \<notin> sample_key ` set (spotDesiredWrites org r2) \<longrightarrow>
      spotNodePoolDesiredGauge (snd (collect org r1 r2 r3 reg)) k = spotNodePoolDesiredGauge reg k)
   \<and> (k \<notin> sample_key ` set (spotWonWrites org r2) \<longrightarrow>
      spotNodePoolWonCountGauge (snd (collect org r1 r2 r3 reg)) k = spotNodePoolWonCountGauge reg k)
   \<and> (k \<notin> sample_key ` set (onDemandDesiredWrites org r3) \<longrightarrow>
      onDemandNodePoolDesiredGauge (snd (collect org r1 r2 r3 reg)) k
        = onDemandNodePoolDesiredGauge reg k)
   \<and> (k \<notin> sample_key ` set (onDemandReservedWrites org r3) \<longrightarrow>
      onDemandNodePoolReservedCountGauge (snd (collect org r1 r2 r3 reg)) k
        = onDemandNodePoolReservedCountGauge reg k)"
  by (simp add: collect_registry write_all_frame)

text \<open>
  A first pass has published \<open>cloudspace-1\<close> with two nodes; the next pass lists
  \<open>cloudspace-2\<close> only. The sample of \<open>cloudspace-1\<close> is still there.
\<close>

theorem collect_keeps_stale_label_combinations_witness:
  "cloudspace_1_key
     \<notin> sample_key ` set (cloudSpaceWrites ''org-test''
          (Inr (Defined \<lparr>cs_items = Defined [cloudspace_2]\<rparr>)))
   \<and> cloudspaceNodesGauge
        (snd (collect ''org-test'' (Inr (Defined \<lparr>cs_items = Defined [cloudspace_2]\<rparr>))
           (Inr (Defined \<lparr>snp_items = Defined []\<rparr>)) (Inr (Defined \<lparr>odp_items = Defined []\<rparr>))
           (snd (pass_of ''org-test'' [cloudspace_1] [] [] new_registry))))
        cloudspace_1_key
       = Some ([(''namespace'', ''org-test''), (''cloudspace'', ''cloudspace-1''),
                (''cloudspace_region'', ''us-central-dfw-1'')], 2)"
proof -
  have absent: "cloudspace_1_key
      \<notin> sample_key ` set (cloudSpaceWrites ''org-test''
           (Inr (Defined \<lparr>cs_items = Defined [cloudspace_2]\<rparr>)))"
    using cloudspace_samples(3) by (simp add: cloudSpaceWrites_def passItems_def chain_def)
  have before: "cloudspaceNodesGauge (snd (pass_of ''org-test'' [cloudspace_1] [] [] new_registry))
      cloudspace_1_key
      = Some ([(''namespace'', ''org-test''), (''cloudspace'', ''cloudspace-1''),
               (''cloudspace_region'', ''us-central-dfw-1'')], 2)"
    using cloudspace_samples(2)
    by (simp add: pass_of_registry cloudspace_samples(1) gauge_set_def sample_key_def)
  show ?thesis
    using absent before collect_keeps_stale_label_combinations
      [of cloudspace_1_key "''org-test''" "Inr (Defined \<lparr>cs_items = Defined [cloudspace_2]\<rparr>)"
          "Inr (Defined \<lparr>snp_items = Defined []\<rparr>)" "Inr (Defined \<lparr>odp_items = Defined []\<rparr>)"
          "snd (pass_of ''org-test'' [cloudspace_1] [] [] new_registry)"]
    by simp
qed




section \<open>The token and its renewal\<close>

lemma authenticate_sent: "sent (snd (authenticate nt c)) = sent c @ [token_request c]"
  by (simp add: authenticate_def token_request_def Let_def split: sum.splits)

lemma authenticate_ok:
  assumes "token_fetch nt = Inr response" and "resp_ok response" and "resp_json response = Inr data"
  shows "authenticate nt c =
           (Inr (), c\<lparr>sent := sent c @ [token_request c], accessToken := Some (id_token data),
                       tokenExpiry := clock_store nt + expires_in data * 1000\<rparr>)"
  using assms by (simp add: authenticate_def token_request_def Let_def)

lemma authenticate_not_ok:
  assumes "token_fetch nt = Inr response" and "\<not> resp_ok response"
  shows "authenticate nt c =
           (Inl (Error (''Failed to authenticate: '' @ show_nat (resp_status response) @ '' - ''
                        @ resp_text response)),
            c\<lparr>sent := sent c @ [token_request c]\<rparr>)"
  using assms by (simp add: authenticate_def token_request_def Let_def)

lemma ensureAuthenticated_cached:
  "hasAccessToken c \<Longrightarrow> clock_check nt < tokenExpiry c - 60000 \<Longrightarrow>
     ensureAuthenticated nt c = (Inr (), c)"
  by (simp add: ensureAuthenticated_def)

lemma ensureAuthenticated_exchange:
  "\<not> (hasAccessToken c \<and> clock_check nt < tokenExpiry c - 60000) \<Longrightarrow>
     ensureAuthenticated nt c = authenticate nt c"
  by (auto simp add: ensureAuthenticated_def)

lemma exchanges_append [simp]:
  "exchanges (c\<lparr>sent := sent c @ rs\<rparr>) = exchanges c + length (filter is_exchange rs)"
  by (simp add: exchanges_def)

lemma exchanges_authenticate: "exchanges (snd (authenticate nt c)) = exchanges c + 1"
  by (simp add: exchanges_def authenticate_sent token_request_def)

lemma exchanges_ensureAuthenticated:
  "exchanges (snd (ensureAuthenticated nt c)) =
     (if hasAccessToken c \<and> clock_check nt < tokenExpiry c - 60000 then exchanges c
      else exchanges c + 1)"
  by (simp add: ensureAuthenticated_def exchanges_authenticate)

lemma list_resource_rejected:
  "ensureAuthenticated nt c = (Inl e, c') \<Longrightarrow> list_resource tpl failure ns nt c = (Inl e, c')"
  by (simp add: list_resource_def client_GET_def authMiddleware_def)




lemma authMiddleware_exchanges:
  "exchanges (snd (authMiddleware nt c)) = exchanges (snd (ensureAuthenticated nt c))"
  by (cases "ensureAuthenticated nt c")
     (simp add: authMiddleware_def split: sum.splits option.splits)

lemma exchanges_list_resource:
  "exchanges (snd (list_resource tpl failure ns nt c)) = exchanges (snd (ensureAuthenticated nt c))"
proof -
  have "exchanges (snd (list_resource tpl failure ns nt c)) = exchanges (snd (authMiddleware nt c))"
    by (cases "authMiddleware nt c")
       (simp add: list_resource_def client_GET_def split: sum.splits optional.splits)
  then show ?thesis by (simp add: authMiddleware_exchanges)
qed

lemma list_call_resource:
  "list_call r ns = list_resource (resource_template r)
     (case r of CloudSpaces \<Rightarrow> ''Failed to list cloudspaces: ''
      | SpotNodePools \<Rightarrow> ''Failed to list spot node pools: ''
      | OnDemandNodePools \<Rightarrow> ''Failed to list on-demand node pools: '') ns"
  by (cases r) (simp_all add: listCloudSpaces_def listSpotNodePools_def listOnDemandNodePools_def)



text \<open>
  C5. When the token endpoint answers with a status that is not a success, the
  exchange fails with an error whose message is \<open>Failed to authenticate:\<close> followed by
  the status code and the response body. Every list call that depends on the exchange,
  that is every list call made without a cached token that is still fresh, fails with
  this very error; it has sent the one token request and nothing else, so nothing was
  retried and no \<open>GET\<close> went out.
\<close>

theorem authentication_failure_propagates:
  assumes "token_fetch nt = Inr response" and "\<not> resp_ok response"
  shows "authenticate nt c =
           (Inl (Error (''Failed to authenticate: '' @ show_nat (resp_status response) @ '' - ''
                        @ resp_text response)),
            c\<lparr>sent := sent c @ [token_request c]\<rparr>)
         \<and> (\<not> (hasAccessToken c \<and> clock_check nt < tokenExpiry c - 60000) \<longrightarrow>
              listCloudSpaces ns nt c =
                (Inl (Error (''Failed to authenticate: '' @ show_nat (resp_status response)
                             @ '' - '' @ resp_text response)),
                 c\<lparr>sent := sent c @ [token_request c]\<rparr>)
              \<and> listSpotNodePools ns nt c =
                (Inl (Error (''Failed to authenticate: '' @ show_nat (resp_status response)
                             @ '' - '' @ resp_text response)),
                 c\<lparr>sent := sent c @ [token_request c]\<rparr>)
              \<and> listOnDemandNodePools ns nt c =
                (Inl (Error (''Failed to authenticate: '' @ show_nat (resp_status response)
                             @ '' - '' @ resp_text response)),
                 c\<lparr>sent := sent c @ [token_request c]\<rparr>))"
proof -
  note failed = authenticate_not_ok [OF assms, of c]
  have "ensureAuthenticated nt c = authenticate nt c"
    if "\<not> (hasAccessToken c \<and> clock_check nt < tokenExpiry c - 60000)"
    using that by (rule ensureAuthenticated_exchange)
  then show ?thesis
    using failed
    by (simp add: listCloudSpaces_def listSpotNodePools_def listOnDemandNodePools_def
          list_resource_rejected)
qed

text \<open>
  C3, amended. \<open>ensureAuthenticated\<close> performs no token exchange exactly when a cached
  token exists that is not the empty string and the clock reads less than the expiry
  minus 60 seconds; it then leaves the client as it is, and otherwise it performs
  exactly one exchange. In particular, after a successful exchange with
  \<open>expires_in = 86400\<close>, a list call made less than a second after the exchange performs
  no exchange provided the \<open>id_token\<close> received was not the empty string, and a list call
  made at the expiry minus 60 seconds or later performs exactly one.
\<close>

theorem token_reused_iff_cached_and_fresh:
  "(exchanges (snd (ensureAuthenticated nt c)) = exchanges c
      \<longleftrightarrow> hasAccessToken c \<and> clock_check nt < tokenExpiry c - 60000)
   \<and> exchanges (snd (ensureAuthenticated nt c)) =
       (if hasAccessToken c \<and> clock_check nt < tokenExpiry c - 60000 then exchanges c
        else exchanges c + 1)
   \<and> (hasAccessToken c \<and> clock_check nt < tokenExpiry c - 60000 \<longrightarrow>
        ensureAuthenticated nt c = (Inr (), c))
   \<and> (token_fetch nt0 = Inr response \<and> resp_ok response \<and> resp_json response = Inr data
        \<and> expires_in data = 86400 \<longrightarrow>
        (id_token data \<noteq> [] \<and> clock_check nt1 < clock_store nt0 + 1000 \<longrightarrow>
           exchanges (snd (list_call r ns nt1 (snd (authenticate nt0 c0))))
             = exchanges (snd (authenticate nt0 c0)))
        \<and> (tokenExpiry (snd (authenticate nt0 c0)) - 60000 \<le> clock_check nt2 \<longrightarrow>
           exchanges (snd (list_call r ns nt2 (snd (authenticate nt0 c0))))
             = exchanges (snd (authenticate nt0 c0)) + 1))"
proof -
  have scenario:
    "(id_token data \<noteq> [] \<and> clock_check nt1 < clock_store nt0 + 1000 \<longrightarrow>
        exchanges (snd (list_call r ns nt1 (snd (authenticate nt0 c0))))
          = exchanges (snd (authenticate nt0 c0)))
     \<and> (tokenExpiry (snd (authenticate nt0 c0)) - 60000 \<le> clock_check nt2 \<longrightarrow>
        exchanges (snd (list_call r ns nt2 (snd (authenticate nt0 c0))))
          = exchanges (snd (authenticate nt0 c0)) + 1)"
    if ok: "token_fetch nt0 = Inr response" "resp_ok response" "resp_json response = Inr data"
      and day: "expires_in data = 86400"
  proof -
    let ?c1 = "snd (authenticate nt0 c0)"
    have has: "hasAccessToken ?c1 \<longleftrightarrow> id_token data \<noteq> []"
      by (simp add: authenticate_ok [OF ok] hasAccessToken_def)
    have expiry: "tokenExpiry ?c1 = clock_store nt0 + 86400000"
      using day by (simp add: authenticate_ok [OF ok])
    show ?thesis
      using has expiry
      by (simp add: list_call_resource exchanges_list_resource exchanges_ensureAuthenticated)
  qed
  show ?thesis
    using scenario by (simp add: exchanges_ensureAuthenticated ensureAuthenticated_cached)
qed

text \<open>
  C3 does not hold as stated. The token endpoint answers 200 with \<open>expires_in = 86400\<close>
  and an \<open>id_token\<close> that is the empty string. The exchange succeeds and the expiry is a
  day ahead, yet a list call made 500 ms later, far before the expiry minus 60
  seconds, performs a second exchange: the empty string fails the test of
  \<open>this.accessToken\<close>.
\<close>

theorem empty_id_token_exchanges_again_counterexample:
  "fst (authenticate (at_time 1000 token_200_empty) test_client) = Inr ()
   \<and> tokenExpiry (snd (authenticate (at_time 1000 token_200_empty) test_client))
       = 1000 + 86400 * 1000
   \<and> exchanges (snd (authenticate (at_time 1000 token_200_empty) test_client)) = 1
   \<and> clock_check (at_time 1500 token_200_empty)
       < tokenExpiry (snd (authenticate (at_time 1000 token_200_empty) test_client)) - 60000
   \<and> exchanges
        (snd (listCloudSpaces ''org-test'' (at_time 1500 token_200_empty)
                (snd (authenticate (at_time 1000 token_200_empty) test_client)))) = 2"
  by (simp add: listCloudSpaces_def list_resource_def client_GET_def authMiddleware_def
        ensureAuthenticated_def authenticate_def hasAccessToken_def at_time_def token_200_def
        token_200_empty_def mock_token_def test_client_def new_client_def exchanges_def
        Let_def)


text \<open>The scenario of the test suite: a fresh client and the answer 401.\<close>

theorem authentication_failure_propagates_witness:
  "\<not> resp_ok token_401
   \<and> \<not> (hasAccessToken test_client
          \<and> clock_check (at_time 1000 token_401) < tokenExpiry test_client - 60000)
   \<and> listCloudSpaces ''org-test'' (at_time 1000 token_401) test_client =
       (Inl (Error ''Failed to authenticate: 401 - Invalid refresh token''),
        test_client\<lparr>sent := [token_request test_client]\<rparr>)
   \<and> listSpotNodePools ''org-test'' (at_time 1000 token_401) test_client =
       (Inl (Error ''Failed to authenticate: 401 - Invalid refresh token''),
        test_client\<lparr>sent := [token_request test_client]\<rparr>)
   \<and> listOnDemandNodePools ''org-test'' (at_time 1000 token_401) test_client =
       (Inl (Error ''Failed to authenticate: 401 - Invalid refresh token''),
        test_client\<lparr>sent := [token_request test_client]\<rparr>)"
proof -
  have fetch: "token_fetch (at_time 1000 token_401) = Inr token_401"
    by (simp add: at_time_def)
  have rejected: "\<not> resp_ok token_401" by (simp add: token_401_def)
  have fresh_client: "\<not> (hasAccessToken test_client
      \<and> clock_check (at_time 1000 token_401) < tokenExpiry test_client - 60000)"
    by (simp add: hasAccessToken_def test_client_def new_client_def)
  have msg: "show_nat (resp_status token_401) = ''401''"
    "resp_text token_401 = ''Invalid refresh token''"
    by (simp_all add: token_401_def show_nat.simps)
  have unsent: "sent test_client = []" by (simp add: test_client_def new_client_def)
  show ?thesis
    using rejected fresh_client
      authentication_failure_propagates [OF fetch rejected, of test_client "''org-test''"]
    by (simp add: msg unsent)
qed

text \<open>
  The exchange of the test suite at the instant 1000, a second request 500 ms later,
  and a third one at the expiry minus 60 seconds.
\<close>

theorem token_reused_iff_cached_and_fresh_witness:
  "resp_ok token_200 \<and> expires_in mock_token = 86400 \<and> id_token mock_token \<noteq> []
   \<and> clock_check (at_time 1500 token_200) < clock_store (at_time 1000 token_200) + 1000
   \<and> exchanges (snd (list_call CloudSpaces ''org-test'' (at_time 1500 token_200)
                       (snd (authenticate (at_time 1000 token_200) test_client))))
       = exchanges (snd (authenticate (at_time 1000 token_200) test_client))
   \<and> tokenExpiry (snd (authenticate (at_time 1000 token_200) test_client)) - 60000
       \<le> clock_check (at_time 86341000 token_200)
   \<and> exchanges (snd (list_call CloudSpaces ''org-test'' (at_time 86341000 token_200)
                       (snd (authenticate (at_time 1000 token_200) test_client))))
       = exchanges (snd (authenticate (at_time 1000 token_200) test_client)) + 1"
proof -
  have fetch: "token_fetch (at_time 1000 token_200) = Inr token_200"
    and ok: "resp_ok token_200" and json: "resp_json token_200 = Inr mock_token"
    and day: "expires_in mock_token = 86400"
    by (simp_all add: at_time_def token_200_def mock_token_def)
  have tok: "id_token mock_token \<noteq> []"
    by (simp add: mock_token_def)
  have soon: "clock_check (at_time 1500 token_200) < clock_store (at_time 1000 token_200) + 1000"
    by (simp add: at_time_def)
  have late: "tokenExpiry (snd (authenticate (at_time 1000 token_200) test_client)) - 60000
      \<le> clock_check (at_time 86341000 token_200)"
    by (simp add: authenticate_ok [OF fetch ok json] day) (simp add: at_time_def)
  show ?thesis
    using fetch ok json day tok soon late
      token_reused_iff_cached_and_fresh
        [where nt = "at_time 1000 token_200" and c = test_client
           and ?nt0.0 = "at_time 1000 token_200" and response = token_200 and data = mock_token
           and ?c0.0 = test_client and ?nt1.0 = "at_time 1500 token_200" and r = CloudSpaces
           and ns = "''org-test''" and ?nt2.0 = "at_time 86341000 token_200"]
    by simp
qed



section \<open>The overlap guard\<close>







end
